theory Spec2Isabelle
  imports Complex_Main "HOL-Library.Word"
begin

section \<open>Program escrow contract (on-ledger prize pool)\<close>

text \<open>
  The contract's Rust source is not part of the checked-out tree; only its interface
  description (the architecture notes) and the off-chain Go client are. The operations
  below are therefore written from section 4.2 of the specification, check by check.
  Amounts are 128-bit signed integers; they are modelled as \<open>int\<close> with every
  arithmetic result checked against the i128 range (overflow is a fatal error).
\<close>

type_synonym address = string

definition I128_MIN :: int where
  "I128_MIN = - (2 ^ 127)"

definition I128_MAX :: int where
  "I128_MAX = 2 ^ 127 - 1"

text \<open>Modelled from the spec: checked i128 addition (the contract source is missing);
  "arithmetic overflow or underflow is a fatal error, never wrapped".\<close>

definition checked_add :: "int \<Rightarrow> int \<Rightarrow> int option" where
  "checked_add a b =
     (if I128_MIN \<le> a + b \<and> a + b \<le> I128_MAX then Some (a + b) else None)"

text \<open>Modelled from the spec: checked i128 subtraction (the contract source is missing).\<close>

definition checked_sub :: "int \<Rightarrow> int \<Rightarrow> int option" where
  "checked_sub a b =
     (if I128_MIN \<le> a - b \<and> a - b \<le> I128_MAX then Some (a - b) else None)"

text \<open>Modelled from the spec: the sum of a batch's amounts, accumulated left to right
  with checked addition (the contract source is missing).\<close>

fun checked_sum :: "int \<Rightarrow> int list \<Rightarrow> int option" where
  "checked_sum acc [] = Some acc"
| "checked_sum acc (a # as) =
     (case checked_add acc a of None \<Rightarrow> None | Some acc' \<Rightarrow> checked_sum acc' as)"

record ProgramEscrowRecord =
  program_id :: string
  total_funds :: int
  remaining_balance :: int
  authorized_payout_key :: address
  created_at :: nat

datatype contract_error =
    AlreadyInitialized
  | NotInitialized
  | InvalidAmount
  | Unauthorized
  | InsufficientBalance
  | LengthMismatch
  | EmptyBatch
  | ArithmeticOverflow

text \<open>The stored state is the record, absent until \<open>init_program\<close> ran. An accepted
  operation returns the new state and the token transfers it executed, in order.\<close>

type_synonym program_state = "ProgramEscrowRecord option"
type_synonym op_result = "contract_error + (program_state \<times> (address \<times> int) list)"

text \<open>Modelled from the spec: \<open>init_program(program_id, authorized_payout_key,
  token_address)\<close> of the missing contract source: "creates the record once; fails if
  already initialized. Establishes total_funds = 0, remaining_balance = 0".\<close>

definition init_program ::
  "program_state \<Rightarrow> string \<Rightarrow> address \<Rightarrow> address \<Rightarrow> nat \<Rightarrow> op_result" where
  "init_program st pid payout_key token_address now =
     (case st of
        Some _ \<Rightarrow> Inl AlreadyInitialized
      | None \<Rightarrow>
          Inr (Some \<lparr>program_id = pid, total_funds = 0, remaining_balance = 0,
                     authorized_payout_key = payout_key, created_at = now\<rparr>, []))"

text \<open>Modelled from the spec: \<open>lock_program_funds(amount)\<close> of the missing contract
  source: "adds amount to both total_funds and remaining_balance; fails if amount \<le> 0 or
  record uninitialized".\<close>

definition lock_program_funds :: "program_state \<Rightarrow> int \<Rightarrow> op_result" where
  "lock_program_funds st amount =
     (case st of
        None \<Rightarrow> Inl NotInitialized
      | Some r \<Rightarrow>
          if amount \<le> 0 then Inl InvalidAmount
          else
            (case checked_add (total_funds r) amount of
               None \<Rightarrow> Inl ArithmeticOverflow
             | Some t \<Rightarrow>
                 (case checked_add (remaining_balance r) amount of
                    None \<Rightarrow> Inl ArithmeticOverflow
                  | Some b \<Rightarrow>
                      Inr (Some (r\<lparr>total_funds := t, remaining_balance := b\<rparr>), []))))"

text \<open>Modelled from the spec: \<open>single_payout(recipient, amount)\<close> of the missing
  contract source: "only authorized payout key. Fails if amount > remaining_balance or
  amount \<le> 0. Decrements remaining_balance, transfers to recipient".\<close>

definition single_payout ::
  "program_state \<Rightarrow> address \<Rightarrow> address \<Rightarrow> int \<Rightarrow> op_result" where
  "single_payout st caller recipient amount =
     (case st of
        None \<Rightarrow> Inl NotInitialized
      | Some r \<Rightarrow>
          if caller \<noteq> authorized_payout_key r then Inl Unauthorized
          else if amount > remaining_balance r then Inl InsufficientBalance
          else if amount \<le> 0 then Inl InvalidAmount
          else
            (case checked_sub (remaining_balance r) amount of
               None \<Rightarrow> Inl ArithmeticOverflow
             | Some b \<Rightarrow> Inr (Some (r\<lparr>remaining_balance := b\<rparr>), [(recipient, amount)])))"

text \<open>Modelled from the spec: \<open>batch_payout(recipients[], amounts[])\<close> of the missing
  contract source: "only authorized payout key. Fails if the two arrays differ in length,
  are empty, or if the sum of amounts exceeds remaining_balance; validates this sum check
  before executing any transfer. Decrements remaining_balance by the total, executes
  transfers in array order". The model makes the checks this passage names and no
  other; the invariant is stated for batches of positive amounts, so that it does not
  rest on what the contract does with a batch that holds another amount.\<close>

definition batch_payout ::
  "program_state \<Rightarrow> address \<Rightarrow> address list \<Rightarrow> int list \<Rightarrow> op_result" where
  "batch_payout st caller recipients amounts =
     (case st of
        None \<Rightarrow> Inl NotInitialized
      | Some r \<Rightarrow>
          if caller \<noteq> authorized_payout_key r then Inl Unauthorized
          else if length recipients \<noteq> length amounts then Inl LengthMismatch
          else if recipients = [] then Inl EmptyBatch
          else
            (case checked_sum 0 amounts of
               None \<Rightarrow> Inl ArithmeticOverflow
             | Some tot \<Rightarrow>
                 if tot > remaining_balance r then Inl InsufficientBalance
                 else
                   (case checked_sub (remaining_balance r) tot of
                      None \<Rightarrow> Inl ArithmeticOverflow
                    | Some b \<Rightarrow>
                        Inr (Some (r\<lparr>remaining_balance := b\<rparr>), zip recipients amounts))))"

text \<open>Modelled from the spec: \<open>refund(initiator)\<close> of the missing contract source: "only
  authorized payout key; transfers remaining_balance to initiator, sets it to 0".\<close>

definition refund :: "program_state \<Rightarrow> address \<Rightarrow> address \<Rightarrow> op_result" where
  "refund st caller initiator =
     (case st of
        None \<Rightarrow> Inl NotInitialized
      | Some r \<Rightarrow>
          if caller \<noteq> authorized_payout_key r then Inl Unauthorized
          else Inr (Some (r\<lparr>remaining_balance := 0\<rparr>), [(initiator, remaining_balance r)]))"

text \<open>One invocation of the contract: the entry point with its arguments (and, for the
  privileged entry points, the address that authorised the call).\<close>

datatype program_op =
    OpInitProgram string address address nat
  | OpLockProgramFunds int
  | OpSinglePayout address address int
  | OpBatchPayout address "address list" "int list"
  | OpRefund address address

fun apply_op :: "program_state \<Rightarrow> program_op \<Rightarrow> op_result" where
  "apply_op st (OpInitProgram pid k tok now) = init_program st pid k tok now"
| "apply_op st (OpLockProgramFunds amount) = lock_program_funds st amount"
| "apply_op st (OpSinglePayout caller recipient amount) = single_payout st caller recipient amount"
| "apply_op st (OpBatchPayout caller recipients amounts) = batch_payout st caller recipients amounts"
| "apply_op st (OpRefund caller initiator) = refund st caller initiator"

text \<open>A sequence of accepted operations: every operation of the list is applied in turn
  and none fails; the result is the stored state after the last one.\<close>

fun run_accepted :: "program_state \<Rightarrow> program_op list \<Rightarrow> program_state option" where
  "run_accepted st [] = Some st"
| "run_accepted st (x # xs) =
     (case apply_op st x of Inl _ \<Rightarrow> None | Inr (st', _) \<Rightarrow> run_accepted st' xs)"

text \<open>Modelled from the spec: the operations of a "valid-amount" sequence, those of the
  property "never negative and never exceeds total_funds, across any sequence of
  lock/payout operations (property-based: random valid-amount sequences)": every amount
  an operation carries is positive. \<open>lock_program_funds\<close> and \<open>single_payout\<close> reject
  any other amount themselves.\<close>

fun valid_amounts :: "program_op \<Rightarrow> bool" where
  "valid_amounts (OpLockProgramFunds amount) = (0 < amount)"
| "valid_amounts (OpSinglePayout caller recipient amount) = (0 < amount)"
| "valid_amounts (OpBatchPayout caller recipients amounts) = list_all (\<lambda>a. 0 < a) amounts"
| "valid_amounts (OpInitProgram pid k tok now) = True"
| "valid_amounts (OpRefund caller initiator) = True"

definition balance_nonneg :: "program_state \<Rightarrow> bool" where
  "balance_nonneg st = (case st of None \<Rightarrow> True | Some r \<Rightarrow> 0 \<le> remaining_balance r)"

definition balance_within_total :: "program_state \<Rightarrow> bool" where
  "balance_within_total st =
     (case st of None \<Rightarrow> True | Some r \<Rightarrow> remaining_balance r \<le> total_funds r)"

section \<open>Transaction builder: submission with retry (tx.go)\<close>

text \<open>
  Durations and instants are Go's \<open>time.Duration\<close> and clock readings, counted in
  nanoseconds. Values of Go's \<open>interface{}\<close> found in a decoded JSON document are
  strings, objects (string-keyed maps, here association lists read with \<open>map_of\<close>) or
  anything else. Go's \<open>int\<close> counters are unbounded integers here. The ledger number
  of a response is a 32-bit word, which the conversion \<open>uint32(resp.Ledger)\<close> leaves
  as it is. Log lines are left out.
\<close>

type_synonym byte = "8 word"

definition second :: int where
  "second = 1000000000"

datatype jval = JString string | JObject "(string \<times> jval) list" | JOther

record Problem =
  Detail :: string
  Extras :: "(string \<times> jval) list"

text \<open>An error of \<open>SubmitTransaction\<close>: a \<open>*horizonclient.Error\<close> carrying the
  problem document, or any other error.\<close>

datatype submit_error = HorizonError Problem | OtherError string

datatype ctx_error = Canceled | DeadlineExceeded

record TransactionResp =
  RespHash :: string
  RespLedger :: "32 word"

text \<open>Modelled from the spec: the type \<open>TransactionResult\<close>, declared in a file
  that is missing (section 3: hash, ledger, status, submitted and confirmed time stamps);
  the fields are those that tx.go sets. A time stamp left unset is \<open>None\<close>.\<close>

record TransactionResult =
  Hash :: string
  Ledger :: "32 word"
  Status :: string
  Submitted :: int
  Confirmed :: "int option"

datatype tx_error =
    AccountDetailsFailed string
  | BuildTransactionFailed string
  | SignTransactionFailed string
  | ContextError ctx_error
  | NonRetryableError submit_error
  | SubmissionFailedAfter int "submit_error option"
  | ConfirmationTimeout string
  | PollTimeout string

text \<open>Modelled from the spec: the type \<open>RetryConfig\<close>, declared in a file that is
  missing (section 4.4 and \<open>TestDefaultRetryConfig\<close>). The fields are those that
  \<open>submitWithRetry\<close> reads, with the types it uses them at: an \<open>int\<close> count, two
  durations and a \<open>float64\<close> factor. The factor is a rational here and the product
  below is exact.\<close>

record RetryConfig =
  MaxRetries :: int
  InitialDelay :: int
  MaxDelay :: int
  BackoffMultiplier :: rat

text \<open>Modelled from the spec: \<open>DefaultRetryConfig\<close>, whose source file is missing; the
  values are those of section 4.4 and of \<open>TestDefaultRetryConfig\<close>.\<close>

definition DefaultRetryConfig :: RetryConfig where
  "DefaultRetryConfig =
     \<lparr>MaxRetries = 3, InitialDelay = 1 * second, MaxDelay = 30 * second,
      BackoffMultiplier = 2\<rparr>"

text \<open>\<open>time.Duration(float64(delay) * multiplier)\<close>: the product, truncated towards
  zero. The model multiplies exactly; \<open>float64\<close> arithmetic agrees with it where the
  operands and the product are representable, in particular for the factor 2 and
  durations of at most \<open>2 ^ 53\<close> nanoseconds. For a factor that is no binary fraction
  (0.1, say) or a product outside the range of \<open>int64\<close> the two can differ; the
  statements about the delays are made for the factor 2 and durations in that range.\<close>

definition scaleDuration :: "int \<Rightarrow> rat \<Rightarrow> int" where
  "scaleDuration d m =
     (let x = of_int d * m in if 0 \<le> x then \<lfloor>x\<rfloor> else \<lceil>x\<rceil>)"

definition nextDelay :: "RetryConfig \<Rightarrow> int \<Rightarrow> int" where
  "nextDelay cfg delay =
     (let d = scaleDuration delay (BackoffMultiplier cfg)
      in if d > MaxDelay cfg then MaxDelay cfg else d)"

definition nonRetryableCodes :: "string list" where
  "nonRetryableCodes =
     [''tx_bad_auth'', ''tx_bad_seq'', ''tx_insufficient_balance'', ''tx_no_source_account'']"

definition isNonRetryableError :: "Problem \<Rightarrow> bool" where
  "isNonRetryableError herr =
     (case map_of (Extras herr) ''result_codes'' of
        Some (JObject resultCodes) \<Rightarrow>
          (case map_of resultCodes ''transaction'' of
             Some (JString transactionCode) \<Rightarrow> transactionCode \<in> set nonRetryableCodes
           | _ \<Rightarrow> False)
      | _ \<Rightarrow> False)"

text \<open>
  The network as one call of \<open>BuildAndSubmit\<close> meets it: whether fetching the account,
  building and signing fail (\<open>Some\<close> error) or not; what the n-th call of
  \<open>SubmitTransaction\<close> answers (n counts from 0); whether, in the \<open>select\<close> before
  attempt k, the context is done before the delay has elapsed (\<open>Some\<close> of
  \<open>ctx.Err()\<close>); and the clock reading taken on success.
\<close>

record submit_env =
  env_AccountDetail :: "string option"
  env_NewTransaction :: "string option"
  env_Sign :: "string option"
  env_SubmitTransaction :: "nat \<Rightarrow> submit_error + TransactionResp"
  env_RetryWait :: "nat \<Rightarrow> ctx_error option"
  env_Now :: int

text \<open>What a run did, in order: the submissions it made and the delays it slept.\<close>

datatype event = Submit nat | Sleep int

function submitLoop ::
  "RetryConfig \<Rightarrow> submit_env \<Rightarrow> int \<Rightarrow> int \<Rightarrow> submit_error option \<Rightarrow> event list \<Rightarrow>
   (tx_error + TransactionResult) \<times> event list" where
  "submitLoop cfg env attempt delay lastErr tr =
     (if attempt \<le> MaxRetries cfg then
        (case (if attempt > 0 then env_RetryWait env (nat attempt) else None) of
           Some e \<Rightarrow> (Inl (ContextError e), tr)
         | None \<Rightarrow>
             (let delay' = (if attempt > 0 then nextDelay cfg delay else delay);
                  tr' = (if attempt > 0 then tr @ [Sleep delay] else tr) @ [Submit (nat attempt)]
              in (case env_SubmitTransaction env (nat attempt) of
                    Inl err \<Rightarrow>
                      (case err of
                         HorizonError herr \<Rightarrow>
                           if isNonRetryableError herr then (Inl (NonRetryableError err), tr')
                           else submitLoop cfg env (attempt + 1) delay' (Some err) tr'
                       | OtherError _ \<Rightarrow>
                           submitLoop cfg env (attempt + 1) delay' (Some err) tr')
                  | Inr resp \<Rightarrow>
                      (Inr \<lparr>Hash = RespHash resp, Ledger = RespLedger resp,
                            Status = ''pending'', Submitted = env_Now env,
                            Confirmed = None\<rparr>, tr'))))
      else (Inl (SubmissionFailedAfter (MaxRetries cfg + 1) lastErr), tr))"
  by pat_completeness auto
termination
  by (relation "measure (\<lambda>(cfg, env, attempt, delay, lastErr, tr).
        nat (MaxRetries cfg + 1 - attempt))") auto

definition submitWithRetry ::
  "RetryConfig \<Rightarrow> submit_env \<Rightarrow> (tx_error + TransactionResult) \<times> event list" where
  "submitWithRetry cfg env = submitLoop cfg env 0 (InitialDelay cfg) None []"

definition BuildAndSubmit ::
  "RetryConfig \<Rightarrow> submit_env \<Rightarrow> (tx_error + TransactionResult) \<times> event list" where
  "BuildAndSubmit cfg env =
     (case env_AccountDetail env of
        Some e \<Rightarrow> (Inl (AccountDetailsFailed e), [])
      | None \<Rightarrow>
          (case env_NewTransaction env of
             Some e \<Rightarrow> (Inl (BuildTransactionFailed e), [])
           | None \<Rightarrow>
               (case env_Sign env of
                  Some e \<Rightarrow> (Inl (SignTransactionFailed e), [])
                | None \<Rightarrow> submitWithRetry cfg env)))"

definition submissions :: "event list \<Rightarrow> nat" where
  "submissions tr = length (filter (\<lambda>e. case e of Submit _ \<Rightarrow> True | Sleep _ \<Rightarrow> False) tr)"

definition delays :: "event list \<Rightarrow> int list" where
  "delays tr = concat (map (\<lambda>e. case e of Submit _ \<Rightarrow> [] | Sleep d \<Rightarrow> [d]) tr)"

text \<open>A submission error that the loop retries: anything but a Horizon error that
  \<open>isNonRetryableError\<close> accepts.\<close>

definition retried :: "submit_error \<Rightarrow> bool" where
  "retried err = (case err of HorizonError herr \<Rightarrow> \<not> isNonRetryableError herr | OtherError _ \<Rightarrow> True)"

text \<open>The values the loop's variables hold when it enters attempt k after k failed
  attempts that were all retried: the delay, the trace and the last error.\<close>

fun delayAt :: "RetryConfig \<Rightarrow> nat \<Rightarrow> int" where
  "delayAt cfg 0 = InitialDelay cfg"
| "delayAt cfg (Suc 0) = InitialDelay cfg"
| "delayAt cfg (Suc (Suc n)) = nextDelay cfg (delayAt cfg (Suc n))"

fun tracePrefix :: "RetryConfig \<Rightarrow> nat \<Rightarrow> event list" where
  "tracePrefix cfg 0 = []"
| "tracePrefix cfg (Suc j) =
     tracePrefix cfg j @ (if j > 0 then [Sleep (delayAt cfg j)] else []) @ [Submit j]"

fun lastErrAt :: "submit_env \<Rightarrow> nat \<Rightarrow> submit_error option" where
  "lastErrAt env 0 = None"
| "lastErrAt env (Suc j) =
     (case env_SubmitTransaction env j of Inl err \<Rightarrow> Some err | Inr _ \<Rightarrow> None)"

definition failsRetried :: "submit_env \<Rightarrow> nat \<Rightarrow> bool" where
  "failsRetried env j =
     (case env_SubmitTransaction env j of Inl err \<Rightarrow> retried err | Inr _ \<Rightarrow> False)"

definition alwaysFailing :: "submit_error \<Rightarrow> submit_env" where
  "alwaysFailing err =
     \<lparr>env_AccountDetail = None, env_NewTransaction = None, env_Sign = None,
      env_SubmitTransaction = (\<lambda>n. Inl err), env_RetryWait = (\<lambda>n. None), env_Now = 0\<rparr>"

definition badSeqProblem :: Problem where
  "badSeqProblem =
     \<lparr>Detail = ''Transaction Failed'',
      Extras = [(''result_codes'', JObject [(''transaction'', JString ''tx_bad_seq'')])]\<rparr>"

definition failingThenBadSeq :: submit_env where
  "failingThenBadSeq =
     \<lparr>env_AccountDetail = None, env_NewTransaction = None, env_Sign = None,
      env_SubmitTransaction =
        (\<lambda>n. if n = 0 then Inl (OtherError ''connection reset'')
              else Inl (HorizonError badSeqProblem)),
      env_RetryWait = (\<lambda>n. None), env_Now = 0\<rparr>"

definition slowStartConfig :: RetryConfig where
  "slowStartConfig =
     \<lparr>MaxRetries = 1, InitialDelay = 60 * second, MaxDelay = 30 * second,
      BackoffMultiplier = 2\<rparr>"

section \<open>Confirmation polling (tx.go and the RPC client)\<close>


datatype 'a select_outcome = CtxDone ctx_error | Tick int "'a option"

record HorizonTransaction =
  TxLedger :: "32 word"
  TxSuccessful :: bool

fun waitLoop ::
  "string \<Rightarrow> int \<Rightarrow> HorizonTransaction select_outcome list \<Rightarrow>
   (tx_error + TransactionResult) option" where
  "waitLoop txHash deadline [] = None"
| "waitLoop txHash deadline (CtxDone e # rest) = Some (Inl (ContextError e))"
| "waitLoop txHash deadline (Tick now answer # rest) =
     (if now > deadline then Some (Inl (ConfirmationTimeout txHash))
      else
        (case answer of
           None \<Rightarrow> waitLoop txHash deadline rest
         | Some tx \<Rightarrow>
             Some (Inr \<lparr>Hash = txHash, Ledger = TxLedger tx, Status = ''success'',
                        Submitted = now, Confirmed = Some now\<rparr>)))"

definition WaitForConfirmation ::
  "int \<Rightarrow> HorizonTransaction select_outcome list \<Rightarrow> string \<Rightarrow> int \<Rightarrow>
   (tx_error + TransactionResult) option" where
  "WaitForConfirmation start selects txHash timeout =
     waitLoop txHash (start + timeout) selects"

fun pollLoop ::
  "string \<Rightarrow> int \<Rightarrow> (string \<times> jval) list select_outcome list \<Rightarrow>
   (tx_error + (string \<times> jval) list) option" where
  "pollLoop txHash deadline [] = None"
| "pollLoop txHash deadline (CtxDone e # rest) = Some (Inl (ContextError e))"
| "pollLoop txHash deadline (Tick now answer # rest) =
     (if now > deadline then Some (Inl (PollTimeout txHash))
      else
        (case answer of
           None \<Rightarrow> pollLoop txHash deadline rest
         | Some status \<Rightarrow>
             (case map_of status ''status'' of
                Some (JString statusVal) \<Rightarrow>
                  if statusVal = ''SUCCESS'' \<or> statusVal = ''FAILED'' then Some (Inr status)
                  else pollLoop txHash deadline rest
              | _ \<Rightarrow> pollLoop txHash deadline rest)))"

definition PollTransactionStatus ::
  "int \<Rightarrow> (string \<times> jval) list select_outcome list \<Rightarrow> string \<Rightarrow> int \<Rightarrow>
   (tx_error + (string \<times> jval) list) option" where
  "PollTransactionStatus start selects txHash timeout =
     pollLoop txHash (start + timeout) selects"



text \<open>The same select outcome with the \<open>Successful\<close> flag of the transaction
  details set to a given value.\<close>

fun withSuccessful :: "bool \<Rightarrow> HorizonTransaction select_outcome \<Rightarrow> HorizonTransaction select_outcome" where
  "withSuccessful b (CtxDone e) = CtxDone e"
| "withSuccessful b (Tick now answer) = Tick now (map_option (\<lambda>tx. tx\<lparr>TxSuccessful := b\<rparr>) answer)"











section \<open>Contract identifiers (tx.go)\<close>

text \<open>
  \<open>EncodeContractAddress\<close> reads a 64-byte identifier two bytes at a time with
  \<open>fmt.Sscanf(chunk, "%02x", &b)\<close>, \<open>b\<close> a byte. On a two-byte chunk that scan skips
  leading white space (a newline is an error), then takes the hexadecimal digits that
  follow, at most two, and fails only when there is none; what follows the digits is left
  unread. So a chunk of two digits gives their value, a digit followed by anything else
  gives the digit's value, and a space followed by a digit gives the digit's value.
\<close>

definition hexVal :: "char \<Rightarrow> nat option" where
  "hexVal c =
     (let n = (of_char c :: nat)
      in if 48 \<le> n \<and> n \<le> 57 then Some (n - 48)
         else if 97 \<le> n \<and> n \<le> 102 then Some (n - 87)
         else if 65 \<le> n \<and> n \<le> 70 then Some (n - 55)
         else None)"

text \<open>The one-byte characters that \<open>fmt\<close> skips as space: tab, vertical tab, form
  feed, carriage return and blank.\<close>

definition fmtSpace :: "char \<Rightarrow> bool" where
  "fmtSpace c = ((of_char c :: nat) \<in> {9, 11, 12, 13, 32})"

definition sscanfHexByte :: "char \<Rightarrow> char \<Rightarrow> byte option" where
  "sscanfHexByte c1 c2 =
     (case hexVal c1 of
        Some h1 \<Rightarrow>
          (case hexVal c2 of
             Some h2 \<Rightarrow> Some (of_nat (16 * h1 + h2))
           | None \<Rightarrow> Some (of_nat h1))
      | None \<Rightarrow>
          if fmtSpace c1 then map_option of_nat (hexVal c2) else None)"

text \<open>The loop over the 32 chunks; it stops at the first chunk that does not scan.\<close>

fun parseHexPairs :: "string \<Rightarrow> byte list option" where
  "parseHexPairs [] = Some []"
| "parseHexPairs [c] = None"
| "parseHexPairs (c1 # c2 # rest) =
     (case sscanfHexByte c1 c2 of
        None \<Rightarrow> None
      | Some b \<Rightarrow> map_option ((#) b) (parseHexPairs rest))"

datatype encode_error = InvalidContractIDFormat | ContractIDMustBe32Bytes nat

datatype sc_address = ScAddressContract "byte list"

text \<open>\<open>base64.StdEncoding.DecodeString\<close> is a parameter: \<open>None\<close> when it reports an
  error.\<close>

definition EncodeContractAddress ::
  "(string \<Rightarrow> byte list option) \<Rightarrow> string \<Rightarrow> encode_error + sc_address" where
  "EncodeContractAddress base64_DecodeString contractID =
     (case (if length contractID = 64 then parseHexPairs contractID else None) of
        Some hash \<Rightarrow> Inr (ScAddressContract hash)
      | None \<Rightarrow>
          (case base64_DecodeString contractID of
             None \<Rightarrow> Inl InvalidContractIDFormat
           | Some bytes \<Rightarrow>
               if length bytes \<noteq> 32 then Inl (ContractIDMustBe32Bytes (length bytes))
               else Inr (ScAddressContract bytes)))"

text \<open>What the claim accepts on the hexadecimal side: 64 characters, each a
  hexadecimal digit.\<close>

definition isHex64 :: "string \<Rightarrow> bool" where
  "isHex64 s = (length s = 64 \<and> list_all (\<lambda>c. hexVal c \<noteq> None) s)"

text \<open>The characters of the standard base64 alphabet and its padding.\<close>

definition base64Char :: "char \<Rightarrow> bool" where
  "base64Char c =
     (let n = (of_char c :: nat)
      in (65 \<le> n \<and> n \<le> 90) \<or> (97 \<le> n \<and> n \<le> 122) \<or> (48 \<le> n \<and> n \<le> 57) \<or>
         n = 43 \<or> n = 47 \<or> n = 61)"

text \<open>Two identifiers of 64 characters: 63 zeros followed by an exclamation mark, and 64
  zeros.\<close>

definition mistypedContractID :: string where
  "mistypedContractID = ''000000000000000000000000000000000000000000000000000000000000000!''"

definition zeroContractID :: string where
  "zeroContractID = ''0000000000000000000000000000000000000000000000000000000000000000''"

section \<open>Program escrow client (program.go)\<close>

text \<open>
  The value encoders and \<open>BuildInvokeHostFunctionOp\<close> live in a file that is not part of
  the tree; they are parameters here, each answering an error message or a value.
\<close>

record ('v, 'op) encoders =
  EncodeScValAddress :: "string \<Rightarrow> string + 'v"
  EncodeScValInt64 :: "64 word \<Rightarrow> string + 'v"
  EncodeScValVec :: "'v list \<Rightarrow> string + 'v"
  BuildInvokeHostFunctionOp :: "sc_address \<Rightarrow> string \<Rightarrow> 'v list \<Rightarrow> string + 'op"
  base64_DecodeString :: "string \<Rightarrow> byte list option"

datatype program_error =
    EmptyPayouts
  | InvalidContractAddress encode_error
  | EncodeFailed string string
  | EncodeItemFailed string nat string
  | BuildOperationFailed string
  | SubmitTransactionFailed tx_error

record PayoutItem =
  Recipient :: string
  Amount :: "64 word"

text \<open>The three operations end in the same statements: build and submit, fail when
  that fails, wait up to 60 seconds for the confirmation, and, when the wait fails,
  return the submitted result with no error. The result is \<open>None\<close> while the wait is
  still blocked after the listed select outcomes.\<close>

definition submitAndConfirm ::
  "RetryConfig \<Rightarrow> submit_env \<Rightarrow> int \<Rightarrow> HorizonTransaction select_outcome list \<Rightarrow>
   (program_error + TransactionResult) option" where
  "submitAndConfirm cfg env start selects =
     (case fst (BuildAndSubmit cfg env) of
        Inl err \<Rightarrow> Some (Inl (SubmitTransactionFailed err))
      | Inr result \<Rightarrow>
          (case WaitForConfirmation start selects (Hash result) (60 * second) of
             None \<Rightarrow> None
           | Some (Inl err) \<Rightarrow> Some (Inr result)
           | Some (Inr confirmed) \<Rightarrow> Some (Inr confirmed)))"

text \<open>The statements before the submission: encoding the contract address and the
  arguments and building the operation.\<close>

definition lockProgramFundsOp ::
  "('v, 'op) encoders \<Rightarrow> string \<Rightarrow> 64 word \<Rightarrow> program_error + 'op" where
  "lockProgramFundsOp enc contractAddress amount =
     (case EncodeContractAddress (base64_DecodeString enc) contractAddress of
        Inl e \<Rightarrow> Inl (InvalidContractAddress e)
      | Inr contractAddr \<Rightarrow>
          (case EncodeScValInt64 enc amount of
             Inl e \<Rightarrow> Inl (EncodeFailed ''amount'' e)
           | Inr amountVal \<Rightarrow>
               (case BuildInvokeHostFunctionOp enc contractAddr ''lock_program_funds''
                       [amountVal] of
                  Inl e \<Rightarrow> Inl (BuildOperationFailed e)
                | Inr op \<Rightarrow> Inr op)))"

definition LockProgramFunds ::
  "('v, 'op) encoders \<Rightarrow> RetryConfig \<Rightarrow> submit_env \<Rightarrow> int \<Rightarrow>
   HorizonTransaction select_outcome list \<Rightarrow> string \<Rightarrow> 64 word \<Rightarrow>
   (program_error + TransactionResult) option" where
  "LockProgramFunds enc cfg env start selects contractAddress amount =
     (case lockProgramFundsOp enc contractAddress amount of
        Inl e \<Rightarrow> Some (Inl e)
      | Inr op \<Rightarrow> submitAndConfirm cfg env start selects)"

definition singlePayoutOp ::
  "('v, 'op) encoders \<Rightarrow> string \<Rightarrow> string \<Rightarrow> 64 word \<Rightarrow> program_error + 'op" where
  "singlePayoutOp enc contractAddress recipientAddress amount =
     (case EncodeContractAddress (base64_DecodeString enc) contractAddress of
        Inl e \<Rightarrow> Inl (InvalidContractAddress e)
      | Inr contractAddr \<Rightarrow>
          (case EncodeScValAddress enc recipientAddress of
             Inl e \<Rightarrow> Inl (EncodeFailed ''recipient address'' e)
           | Inr recipientVal \<Rightarrow>
               (case EncodeScValInt64 enc amount of
                  Inl e \<Rightarrow> Inl (EncodeFailed ''amount'' e)
                | Inr amountVal \<Rightarrow>
                    (case BuildInvokeHostFunctionOp enc contractAddr ''single_payout''
                            [recipientVal, amountVal] of
                       Inl e \<Rightarrow> Inl (BuildOperationFailed e)
                     | Inr op \<Rightarrow> Inr op))))"

definition SinglePayout ::
  "('v, 'op) encoders \<Rightarrow> RetryConfig \<Rightarrow> submit_env \<Rightarrow> int \<Rightarrow>
   HorizonTransaction select_outcome list \<Rightarrow> string \<Rightarrow> string \<Rightarrow> 64 word \<Rightarrow>
   (program_error + TransactionResult) option" where
  "SinglePayout enc cfg env start selects contractAddress recipientAddress amount =
     (case singlePayoutOp enc contractAddress recipientAddress amount of
        Inl e \<Rightarrow> Some (Inl e)
      | Inr op \<Rightarrow> submitAndConfirm cfg env start selects)"

text \<open>Encoding the items of a batch in order; the first failure ends the loop with
  the item's index.\<close>

fun encodeEach ::
  "('a \<Rightarrow> string + 'v) \<Rightarrow> string \<Rightarrow> nat \<Rightarrow> 'a list \<Rightarrow> program_error + 'v list" where
  "encodeEach f what i [] = Inr []"
| "encodeEach f what i (x # xs) =
     (case f x of
        Inl e \<Rightarrow> Inl (EncodeItemFailed what i e)
      | Inr v \<Rightarrow>
          (case encodeEach f what (Suc i) xs of
             Inl e \<Rightarrow> Inl e
           | Inr vs \<Rightarrow> Inr (v # vs)))"

definition batchPayoutOp ::
  "('v, 'op) encoders \<Rightarrow> string \<Rightarrow> PayoutItem list \<Rightarrow> program_error + 'op" where
  "batchPayoutOp enc contractAddress payouts =
     (if payouts = [] then Inl EmptyPayouts
      else
        (case EncodeContractAddress (base64_DecodeString enc) contractAddress of
           Inl e \<Rightarrow> Inl (InvalidContractAddress e)
         | Inr contractAddr \<Rightarrow>
             (case encodeEach (EncodeScValAddress enc) ''recipient'' 0 (map Recipient payouts) of
                Inl e \<Rightarrow> Inl e
              | Inr recipientVals \<Rightarrow>
                  (case EncodeScValVec enc recipientVals of
                     Inl e \<Rightarrow> Inl (EncodeFailed ''recipients vector'' e)
                   | Inr recipientsVec \<Rightarrow>
                       (case encodeEach (EncodeScValInt64 enc) ''amount'' 0 (map Amount payouts) of
                          Inl e \<Rightarrow> Inl e
                        | Inr amountVals \<Rightarrow>
                            (case EncodeScValVec enc amountVals of
                               Inl e \<Rightarrow> Inl (EncodeFailed ''amounts vector'' e)
                             | Inr amountsVec \<Rightarrow>
                                 (case BuildInvokeHostFunctionOp enc contractAddr ''batch_payout''
                                         [recipientsVec, amountsVec] of
                                    Inl e \<Rightarrow> Inl (BuildOperationFailed e)
                                  | Inr op \<Rightarrow> Inr op)))))))"

definition BatchPayout ::
  "('v, 'op) encoders \<Rightarrow> RetryConfig \<Rightarrow> submit_env \<Rightarrow> int \<Rightarrow>
   HorizonTransaction select_outcome list \<Rightarrow> string \<Rightarrow> PayoutItem list \<Rightarrow>
   (program_error + TransactionResult) option" where
  "BatchPayout enc cfg env start selects contractAddress payouts =
     (case batchPayoutOp enc contractAddress payouts of
        Inl e \<Rightarrow> Some (Inl e)
      | Inr op \<Rightarrow> submitAndConfirm cfg env start selects)"

text \<open>A network that accepts the first submission, the result of that submission, and
  encoders that never fail, for evaluating the operations on concrete inputs.\<close>

definition acceptingEnv :: submit_env where
  "acceptingEnv =
     \<lparr>env_AccountDetail = None, env_NewTransaction = None, env_Sign = None,
      env_SubmitTransaction = (\<lambda>n. Inr \<lparr>RespHash = ''abc'', RespLedger = 7\<rparr>),
      env_RetryWait = (\<lambda>n. None), env_Now = 100\<rparr>"

definition pendingResult :: TransactionResult where
  "pendingResult =
     \<lparr>Hash = ''abc'', Ledger = 7, Status = ''pending'', Submitted = 100, Confirmed = None\<rparr>"

definition plainEncoders :: "(string, string) encoders" where
  "plainEncoders =
     \<lparr>EncodeScValAddress = (\<lambda>a. Inr a), EncodeScValInt64 = (\<lambda>n. Inr ''i64''),
      EncodeScValVec = (\<lambda>vs. Inr (concat vs)),
      BuildInvokeHostFunctionOp = (\<lambda>addr fn args. Inr fn),
      base64_DecodeString = (\<lambda>s. None)\<rparr>"

section \<open>Wallet signature verification (verify.go)\<close>

text \<open>
  The cryptographic primitives and the two Unicode-aware string functions are parameters:
  \<open>strings.TrimSpace\<close>, \<open>strings.ToLower\<close>, \<open>accounts.TextHash\<close>,
  \<open>crypto.SigToPub\<close> (\<open>None\<close>: recovery failed), the hexadecimal form of
  \<open>crypto.PubkeyToAddress\<close>, \<open>ed25519.Verify\<close>, \<open>secp256k1.ParsePubKey\<close>,
  \<open>sha256.Sum256\<close>, \<open>ecdsa.ParseDERSignature\<close>, \<open>ecdsa.NewSignature\<close> and the
  signature's \<open>Verify\<close>. Hexadecimal decoding and the scalar overflow test are written
  out. A Go \<open>error\<close> result is an option: \<open>None\<close> is \<open>nil\<close>.
\<close>

record ('pk, 'spk, 'sg) crypto =
  strings_TrimSpace :: "string \<Rightarrow> string"
  strings_ToLower :: "string \<Rightarrow> string"
  accounts_TextHash :: "string \<Rightarrow> byte list"
  crypto_SigToPub :: "byte list \<Rightarrow> byte list \<Rightarrow> 'pk option"
  crypto_PubkeyToAddressHex :: "'pk \<Rightarrow> string"
  ed25519_Verify :: "byte list \<Rightarrow> string \<Rightarrow> byte list \<Rightarrow> bool"
  secp256k1_ParsePubKey :: "byte list \<Rightarrow> 'spk option"
  sha256_Sum256 :: "string \<Rightarrow> byte list"
  ecdsa_ParseDERSignature :: "byte list \<Rightarrow> 'sg option"
  ecdsa_NewSignature :: "nat \<Rightarrow> nat \<Rightarrow> 'sg"
  ecdsa_Verify :: "'sg \<Rightarrow> byte list \<Rightarrow> 'spk \<Rightarrow> bool"

datatype verify_error =
    UnsupportedWalletType
  | InvalidSignatureHex
  | InvalidSignatureLength
  | SignatureRecoveryFailed
  | SignatureDoesNotMatchAddress
  | InvalidPublicKey
  | InvalidSignature

definition WalletTypeEVM :: string where
  "WalletTypeEVM = ''evm''"

definition WalletTypeStellarEd25519 :: string where
  "WalletTypeStellarEd25519 = ''stellar_ed25519''"

definition WalletTypeStellarSecp256k1 :: string where
  "WalletTypeStellarSecp256k1 = ''stellar_secp256k1''"

text \<open>\<open>hex.DecodeString\<close>: pairs of hexadecimal digits of either case; an odd length
  or any other character is an error.\<close>

fun hex_DecodeString :: "string \<Rightarrow> byte list option" where
  "hex_DecodeString [] = Some []"
| "hex_DecodeString [c] = None"
| "hex_DecodeString (c1 # c2 # rest) =
     (case hexVal c1 of
        None \<Rightarrow> None
      | Some a \<Rightarrow>
          (case hexVal c2 of
             None \<Rightarrow> None
           | Some b \<Rightarrow> map_option ((#) (of_nat (16 * a + b))) (hex_DecodeString rest)))"

text \<open>\<open>hexutil.Decode\<close>: the empty string and a string without the prefix \<open>0x\<close> or
  \<open>0X\<close> are errors; the rest is decoded by \<open>hex.DecodeString\<close>.\<close>

definition has0xPrefix :: "string \<Rightarrow> bool" where
  "has0xPrefix input =
     (case input of
        c0 # c1 # _ \<Rightarrow> c0 = CHR ''0'' \<and> (c1 = CHR ''x'' \<or> c1 = CHR ''X'')
      | _ \<Rightarrow> False)"

definition hexutil_Decode :: "string \<Rightarrow> byte list option" where
  "hexutil_Decode input =
     (if input = [] then None
      else if \<not> has0xPrefix input then None
      else hex_DecodeString (drop 2 input))"

definition TrimPrefix :: "string \<Rightarrow> string \<Rightarrow> string" where
  "TrimPrefix s pre = (if take (length pre) s = pre then drop (length pre) s else s)"

definition decodeHex :: "('pk, 'spk, 'sg) crypto \<Rightarrow> string \<Rightarrow> byte list option" where
  "decodeHex lib s =
     (let v = strings_TrimSpace lib s
      in if v = [] then None else hex_DecodeString (TrimPrefix v ''0x''))"

text \<open>The recovery identifier, the last of the 65 bytes: 27 is subtracted when it is
  at least 27.\<close>

definition normalizeV :: "byte list \<Rightarrow> byte list" where
  "normalizeV sig = (if 27 \<le> sig ! 64 then sig[64 := sig ! 64 - 27] else sig)"

definition verifyEVM ::
  "('pk, 'spk, 'sg) crypto \<Rightarrow> string \<Rightarrow> string \<Rightarrow> string \<Rightarrow> verify_error option" where
  "verifyEVM lib expectedAddr message signatureHex =
     (case hexutil_Decode signatureHex of
        None \<Rightarrow> Some InvalidSignatureHex
      | Some sig \<Rightarrow>
          if length sig \<noteq> 65 then Some InvalidSignatureLength
          else
            (case crypto_SigToPub lib (accounts_TextHash lib message) (normalizeV sig) of
               None \<Rightarrow> Some SignatureRecoveryFailed
             | Some pub \<Rightarrow>
                 if strings_ToLower lib expectedAddr \<noteq>
                    strings_ToLower lib (crypto_PubkeyToAddressHex lib pub)
                 then Some SignatureDoesNotMatchAddress
                 else None))"

definition ed25519_PublicKeySize :: nat where
  "ed25519_PublicKeySize = 32"

definition ed25519_SignatureSize :: nat where
  "ed25519_SignatureSize = 64"

definition verifyStellarEd25519 ::
  "('pk, 'spk, 'sg) crypto \<Rightarrow> string \<Rightarrow> string \<Rightarrow> string \<Rightarrow> verify_error option" where
  "verifyStellarEd25519 lib message signatureHex publicKeyHex =
     (case decodeHex lib publicKeyHex of
        None \<Rightarrow> Some InvalidPublicKey
      | Some pubKeyBytes \<Rightarrow>
          if length pubKeyBytes \<noteq> ed25519_PublicKeySize then Some InvalidPublicKey
          else
            (case decodeHex lib signatureHex of
               None \<Rightarrow> Some InvalidSignature
             | Some sigBytes \<Rightarrow>
                 if length sigBytes \<noteq> ed25519_SignatureSize then Some InvalidSignature
                 else if \<not> ed25519_Verify lib pubKeyBytes message sigBytes
                 then Some InvalidSignature
                 else None))"

text \<open>The order of the secp256k1 group, and \<open>ModNScalar.SetByteSlice\<close> on a 32-byte
  slice: the big-endian value reduced modulo the order, and whether it was at least the
  order.\<close>

definition secp256k1_N :: nat where
  "secp256k1_N = 0xFFFFFFFFFFFFFFFFFFFFFFFFFFFFFFFEBAAEDCE6AF48A03BBFD25E8CD0364141"

definition bigEndian :: "byte list \<Rightarrow> nat" where
  "bigEndian bs = foldl (\<lambda>acc b. acc * 256 + unat b) 0 bs"

definition SetByteSlice :: "byte list \<Rightarrow> nat \<times> bool" where
  "SetByteSlice b = (bigEndian b mod secp256k1_N, secp256k1_N \<le> bigEndian b)"

definition parseSecp256k1Signature ::
  "('pk, 'spk, 'sg) crypto \<Rightarrow> byte list \<Rightarrow> 'sg option" where
  "parseSecp256k1Signature lib b =
     (if length b = 64 then
        (if snd (SetByteSlice (take 32 b)) then None
         else if snd (SetByteSlice (drop 32 b)) then None
         else Some (ecdsa_NewSignature lib (fst (SetByteSlice (take 32 b)))
                      (fst (SetByteSlice (drop 32 b)))))
      else ecdsa_ParseDERSignature lib b)"

definition verifyStellarSecp256k1 ::
  "('pk, 'spk, 'sg) crypto \<Rightarrow> string \<Rightarrow> string \<Rightarrow> string \<Rightarrow> verify_error option" where
  "verifyStellarSecp256k1 lib message signatureHex publicKeyHex =
     (case decodeHex lib publicKeyHex of
        None \<Rightarrow> Some InvalidPublicKey
      | Some pubKeyBytes \<Rightarrow>
          (case secp256k1_ParsePubKey lib pubKeyBytes of
             None \<Rightarrow> Some InvalidPublicKey
           | Some pubKey \<Rightarrow>
               (case decodeHex lib signatureHex of
                  None \<Rightarrow> Some InvalidSignature
                | Some sigBytes \<Rightarrow>
                    (case parseSecp256k1Signature lib sigBytes of
                       None \<Rightarrow> Some InvalidSignature
                     | Some sig \<Rightarrow>
                         if \<not> ecdsa_Verify lib sig (sha256_Sum256 lib message) pubKey
                         then Some InvalidSignature
                         else None))))"

definition VerifySignature ::
  "('pk, 'spk, 'sg) crypto \<Rightarrow> string \<Rightarrow> string \<Rightarrow> string \<Rightarrow> string \<Rightarrow> string \<Rightarrow>
   verify_error option" where
  "VerifySignature lib t address message signatureHex publicKeyHex =
     (if t = WalletTypeEVM then verifyEVM lib address message signatureHex
      else if t = WalletTypeStellarEd25519
      then verifyStellarEd25519 lib message signatureHex publicKeyHex
      else if t = WalletTypeStellarSecp256k1
      then verifyStellarSecp256k1 lib message signatureHex publicKeyHex
      else Some UnsupportedWalletType)"

text \<open>Stand-ins for the primitives, for evaluating the verifier on concrete inputs:
  recovery succeeds exactly on a normalised recovery identifier and yields a fixed address,
  a 33-byte public key parses, and the signature with scalars 1 and 2 verifies.\<close>

definition hexLower :: "string \<Rightarrow> string" where
  "hexLower s =
     map (\<lambda>c. if c = CHR ''A'' then CHR ''a'' else if c = CHR ''B'' then CHR ''b''
              else if c = CHR ''C'' then CHR ''c'' else if c = CHR ''D'' then CHR ''d''
              else if c = CHR ''E'' then CHR ''e'' else if c = CHR ''F'' then CHR ''f''
              else if c = CHR ''X'' then CHR ''x'' else c) s"

definition toyCrypto :: "(string, byte list, nat \<times> nat) crypto" where
  "toyCrypto =
     \<lparr>strings_TrimSpace = (\<lambda>s. s),
      strings_ToLower = hexLower,
      accounts_TextHash = (\<lambda>m. map (\<lambda>c. of_nat (of_char c)) m),
      crypto_SigToPub = (\<lambda>h sig. if sig ! 64 \<le> 1 then Some ''0xAbCd'' else None),
      crypto_PubkeyToAddressHex = (\<lambda>pk. pk),
      ed25519_Verify = (\<lambda>pk m sig. False),
      secp256k1_ParsePubKey = (\<lambda>b. if length b = 33 then Some b else None),
      sha256_Sum256 = (\<lambda>m. map (\<lambda>c. of_nat (of_char c)) m),
      ecdsa_ParseDERSignature = (\<lambda>b. None),
      ecdsa_NewSignature = (\<lambda>r s. (r, s)),
      ecdsa_Verify = (\<lambda>sig h pk. fst sig = 1 \<and> snd sig = 2)\<rparr>"

definition toySignatureHex :: string where
  "toySignatureHex = ''0x000000000000000000000000000000000000000000000000000000000000000000000000000000000000000000000000000000000000000000000000000000001c''"

definition toyPublicKeyHex :: string where
  "toyPublicKeyHex = ''020000000000000000000000000000000000000000000000000000000000000000''"

definition toyCompactSignatureHex :: string where
  "toyCompactSignatureHex = ''00000000000000000000000000000000000000000000000000000000000000010000000000000000000000000000000000000000000000000000000000000002''"

section \<open>Program escrow: the balance invariant\<close>

lemma checked_sum_eq: "checked_sum acc xs = Some t \<Longrightarrow> t = acc + sum_list xs"
proof (induction xs arbitrary: acc)
  case Nil
  then show ?case by simp
next
  case (Cons a xs)
  from Cons.prems obtain acc' where add: "checked_add acc a = Some acc'"
    and rest: "checked_sum acc' xs = Some t"
    by (auto split: option.splits)
  from add have "acc' = acc + a"
    by (auto simp: checked_add_def split: if_splits)
  with Cons.IH [OF rest] show ?case by simp
qed

lemma sum_list_positive: "list_all (\<lambda>a. 0 < a) xs \<Longrightarrow> (0::int) \<le> sum_list xs"
  by (induction xs) auto

lemma apply_op_nonneg:
  assumes "apply_op st x = Inr (st', tr)" and "balance_nonneg st"
  shows "balance_nonneg st'"
proof (cases x)
  case (OpInitProgram pid k tok now)
  with assms show ?thesis
    by (auto simp: init_program_def balance_nonneg_def split: option.splits)
next
  case (OpLockProgramFunds amount)
  with assms show ?thesis
    by (auto simp: lock_program_funds_def balance_nonneg_def checked_add_def
        split: option.splits if_splits)
next
  case (OpSinglePayout caller recipient amount)
  with assms show ?thesis
    by (auto simp: single_payout_def balance_nonneg_def checked_sub_def
        split: option.splits if_splits)
next
  case (OpBatchPayout caller recipients amounts)
  with assms show ?thesis
    by (auto simp: batch_payout_def balance_nonneg_def checked_sub_def
        split: option.splits if_splits)
next
  case (OpRefund caller initiator)
  with assms show ?thesis
    by (auto simp: refund_def balance_nonneg_def split: option.splits if_splits)
qed

lemma apply_op_within_total:
  assumes "apply_op st x = Inr (st', tr)" and "balance_nonneg st"
    and "balance_within_total st" and "valid_amounts x"
  shows "balance_within_total st'"
proof (cases x)
  case (OpInitProgram pid k tok now)
  with assms show ?thesis
    by (auto simp: init_program_def balance_within_total_def split: option.splits)
next
  case (OpLockProgramFunds amount)
  with assms show ?thesis
    by (auto simp: lock_program_funds_def balance_within_total_def checked_add_def
        split: option.splits if_splits)
next
  case (OpSinglePayout caller recipient amount)
  with assms show ?thesis
    by (auto simp: single_payout_def balance_within_total_def checked_sub_def
        split: option.splits if_splits)
next
  case (OpBatchPayout caller recipients amounts)
  with assms have "0 \<le> sum_list amounts"
    by (simp add: sum_list_positive)
  with OpBatchPayout assms show ?thesis
    by (auto simp: batch_payout_def balance_within_total_def checked_sub_def
        dest!: checked_sum_eq split: option.splits if_splits)
next
  case (OpRefund caller initiator)
  with assms show ?thesis
    by (auto simp: refund_def balance_within_total_def balance_nonneg_def
        split: option.splits if_splits)
qed

lemma run_accepted_nonneg:
  "run_accepted st xs = Some st' \<Longrightarrow> balance_nonneg st \<Longrightarrow> balance_nonneg st'"
proof (induction xs arbitrary: st)
  case Nil
  then show ?case by simp
next
  case (Cons x xs)
  then show ?case
    by (auto split: sum.splits prod.splits dest: apply_op_nonneg)
qed

lemma run_accepted_within_total:
  "run_accepted st xs = Some st' \<Longrightarrow> balance_nonneg st \<Longrightarrow> balance_within_total st \<Longrightarrow>
   list_all valid_amounts xs \<Longrightarrow> balance_within_total st'"
proof (induction xs arbitrary: st)
  case Nil
  then show ?case by simp
next
  case (Cons x xs)
  from Cons.prems obtain st1 tr where step: "apply_op st x = Inr (st1, tr)"
    and rest: "run_accepted st1 xs = Some st'"
    by (auto split: sum.splits prod.splits)
  from Cons.prems have bx: "valid_amounts x" and bxs: "list_all valid_amounts xs"
    by simp_all
  have n1: "balance_nonneg st1"
    using apply_op_nonneg [OF step Cons.prems(2)] .
  have w1: "balance_within_total st1"
    using apply_op_within_total [OF step Cons.prems(2) Cons.prems(3) bx] .
  show ?case
    using Cons.IH [OF rest n1 w1 bxs] .
qed

text \<open>
  Claim C1: after every sequence of accepted \<open>init_program\<close>, \<open>lock_program_funds\<close>,
  \<open>single_payout\<close>, \<open>batch_payout\<close> and \<open>refund\<close> operations with valid amounts on a
  fresh contract, the stored \<open>remaining_balance\<close> is never negative and never exceeds
  \<open>total_funds\<close>.
\<close>

theorem program_balance_invariant:
  assumes "run_accepted None ops = Some (Some r)" and "list_all valid_amounts ops"
  shows "0 \<le> remaining_balance r \<and> remaining_balance r \<le> total_funds r"
proof -
  have n0: "balance_nonneg None" and w0: "balance_within_total None"
    by (simp_all add: balance_nonneg_def balance_within_total_def)
  have "0 \<le> remaining_balance r"
    using run_accepted_nonneg [OF assms(1) n0] by (simp add: balance_nonneg_def)
  moreover have "remaining_balance r \<le> total_funds r"
    using run_accepted_within_total [OF assms(1) n0 w0 assms(2)]
    by (simp add: balance_within_total_def)
  ultimately show ?thesis by blast
qed

theorem program_balance_invariant_witness:
  "run_accepted None
     [OpInitProgram ''p'' ''key'' ''tok'' 0, OpLockProgramFunds 100,
      OpSinglePayout ''key'' ''r1'' 30, OpBatchPayout ''key'' [''r1'', ''r2''] [20, 10],
      OpLockProgramFunds 5, OpRefund ''key'' ''owner'']
   = Some (Some \<lparr>program_id = ''p'', total_funds = 105, remaining_balance = 0,
                  authorized_payout_key = ''key'', created_at = 0\<rparr>)
   \<and> list_all valid_amounts
     [OpInitProgram ''p'' ''key'' ''tok'' 0, OpLockProgramFunds 100,
      OpSinglePayout ''key'' ''r1'' 30, OpBatchPayout ''key'' [''r1'', ''r2''] [20, 10],
      OpLockProgramFunds 5, OpRefund ''key'' ''owner'']
   \<and> (0::int) \<le> remaining_balance \<lparr>program_id = ''p'', total_funds = 105, remaining_balance = 0,
                  authorized_payout_key = ''key'', created_at = 0\<rparr>
   \<and> remaining_balance \<lparr>program_id = ''p'', total_funds = 105, remaining_balance = 0,
                  authorized_payout_key = ''key'', created_at = 0\<rparr>
     \<le> total_funds \<lparr>program_id = ''p'', total_funds = 105, remaining_balance = 0,
                  authorized_payout_key = ''key'', created_at = 0\<rparr>"
proof -
  let ?ops = "[OpInitProgram ''p'' ''key'' ''tok'' 0, OpLockProgramFunds 100,
      OpSinglePayout ''key'' ''r1'' 30, OpBatchPayout ''key'' [''r1'', ''r2''] [20, 10],
      OpLockProgramFunds 5, OpRefund ''key'' ''owner'']"
  let ?r = "\<lparr>program_id = ''p'', total_funds = 105, remaining_balance = 0,
                  authorized_payout_key = ''key'', created_at = 0\<rparr>"
  have run: "run_accepted None ?ops = Some (Some ?r)"
    by (simp add: init_program_def lock_program_funds_def single_payout_def batch_payout_def
        refund_def checked_add_def checked_sub_def I128_MIN_def I128_MAX_def)
  have nn: "list_all valid_amounts ?ops" by simp
  from program_balance_invariant [OF run nn] run nn
  show ?thesis by blast
qed

section \<open>Submission with retry: fatal and retried failures\<close>

declare submitLoop.simps [simp del]

lemma submitLoop_exhausted:
  "\<not> attempt \<le> MaxRetries cfg \<Longrightarrow>
   submitLoop cfg env attempt d le tr = (Inl (SubmissionFailedAfter (MaxRetries cfg + 1) le), tr)"
  by (simp add: submitLoop.simps)

lemma submitLoop_unfold_retry:
  assumes "attempt \<le> MaxRetries cfg"
    and "0 < attempt \<longrightarrow> env_RetryWait env (nat attempt) = None"
    and "env_SubmitTransaction env (nat attempt) = Inl err" and "retried err"
  shows "submitLoop cfg env attempt d le tr =
         submitLoop cfg env (attempt + 1) (if 0 < attempt then nextDelay cfg d else d) (Some err)
           ((if 0 < attempt then tr @ [Sleep d] else tr) @ [Submit (nat attempt)])"
proof -
  define n where "n = nat attempt"
  have sub: "env_SubmitTransaction env n = Inl err"
    using assms(3) by (simp add: n_def)
  have wait: "(if 0 < attempt then env_RetryWait env n else None) = None"
    using assms(2) by (simp add: n_def)
  show ?thesis
    unfolding submitLoop.simps [of cfg env attempt d le tr] n_def [symmetric] wait sub
    using assms(1,4) by (cases err) (simp_all add: retried_def Let_def)
qed

lemma submitLoop_unfold_fatal:
  assumes "attempt \<le> MaxRetries cfg"
    and "0 < attempt \<longrightarrow> env_RetryWait env (nat attempt) = None"
    and "env_SubmitTransaction env (nat attempt) = Inl (HorizonError p)"
    and "isNonRetryableError p"
  shows "submitLoop cfg env attempt d le tr =
         (Inl (NonRetryableError (HorizonError p)),
          (if 0 < attempt then tr @ [Sleep d] else tr) @ [Submit (nat attempt)])"
proof -
  define n where "n = nat attempt"
  have sub: "env_SubmitTransaction env n = Inl (HorizonError p)"
    using assms(3) by (simp add: n_def)
  have wait: "(if 0 < attempt then env_RetryWait env n else None) = None"
    using assms(2) by (simp add: n_def)
  show ?thesis
    unfolding submitLoop.simps [of cfg env attempt d le tr] n_def [symmetric] wait sub
    using assms(1,4) by (simp add: Let_def)
qed

lemma submitLoop_retry_step:
  assumes "int a \<le> MaxRetries cfg" and "0 < a \<longrightarrow> env_RetryWait env a = None"
    and "failsRetried env a"
  shows "submitLoop cfg env (int a) (delayAt cfg a) le (tracePrefix cfg a) =
         submitLoop cfg env (int (Suc a)) (delayAt cfg (Suc a)) (lastErrAt env (Suc a))
           (tracePrefix cfg (Suc a))"
proof -
  from assms(3) obtain err where e: "env_SubmitTransaction env a = Inl err" and r: "retried err"
    by (auto simp: failsRetried_def split: sum.splits)
  have w: "0 < int a \<longrightarrow> env_RetryWait env (nat (int a)) = None"
    using assms(2) by simp
  have e': "env_SubmitTransaction env (nat (int a)) = Inl err"
    using e by simp
  have d: "(if 0 < int a then nextDelay cfg (delayAt cfg a) else delayAt cfg a) = delayAt cfg (Suc a)"
    by (cases a) simp_all
  show ?thesis
    unfolding submitLoop_unfold_retry [OF assms(1) w e' r] d
    by (simp add: e add.commute)
qed

lemma submitLoop_reaches:
  assumes "int k \<le> MaxRetries cfg + 1"
    and "\<forall>j<k. failsRetried env j"
    and "\<forall>j<k. 0 < j \<longrightarrow> env_RetryWait env j = None"
  shows "submitWithRetry cfg env =
         submitLoop cfg env (int k) (delayAt cfg k) (lastErrAt env k) (tracePrefix cfg k)"
  using assms
proof (induction k)
  case 0
  then show ?case by (simp add: submitWithRetry_def)
next
  case (Suc k)
  then have "submitWithRetry cfg env =
         submitLoop cfg env (int k) (delayAt cfg k) (lastErrAt env k) (tracePrefix cfg k)"
    by simp
  also have "\<dots> = submitLoop cfg env (int (Suc k)) (delayAt cfg (Suc k)) (lastErrAt env (Suc k))
           (tracePrefix cfg (Suc k))"
    using Suc.prems by (intro submitLoop_retry_step) auto
  finally show ?case .
qed

lemma submitLoop_fatal_step:
  assumes "int a \<le> MaxRetries cfg" and "0 < a \<longrightarrow> env_RetryWait env a = None"
    and "env_SubmitTransaction env a = Inl (HorizonError p)" and "isNonRetryableError p"
  shows "submitLoop cfg env (int a) (delayAt cfg a) le (tracePrefix cfg a) =
         (Inl (NonRetryableError (HorizonError p)), tracePrefix cfg (Suc a))"
proof -
  have w: "0 < int a \<longrightarrow> env_RetryWait env (nat (int a)) = None"
    using assms(2) by simp
  have e': "env_SubmitTransaction env (nat (int a)) = Inl (HorizonError p)"
    using assms(3) by simp
  show ?thesis
    unfolding submitLoop_unfold_fatal [OF assms(1) w e' assms(4)] by simp
qed

lemma submissions_tracePrefix: "submissions (tracePrefix cfg k) = k"
  by (induction k) (auto simp: submissions_def)

lemma delays_tracePrefix: "delays (tracePrefix cfg (Suc k)) = map (delayAt cfg) [1..<Suc k]"
  by (induction k) (auto simp: delays_def)

lemma scaleDuration_two: "scaleDuration d 2 = 2 * d"
proof -
  have "(of_int d :: rat) * 2 = of_int (2 * d)" by simp
  then show ?thesis unfolding scaleDuration_def Let_def
    by (simp only: floor_of_int ceiling_of_int if_cancel)
qed

lemma delayAt_closed:
  assumes "BackoffMultiplier cfg = 2" and "InitialDelay cfg \<le> MaxDelay cfg"
    and "0 \<le> InitialDelay cfg"
  shows "delayAt cfg (Suc k) = min (InitialDelay cfg * 2 ^ k) (MaxDelay cfg)"
proof (induction k)
  case 0
  with assms show ?case by simp
next
  case (Suc k)
  have "0 \<le> InitialDelay cfg * 2 ^ k" using assms(3) by simp
  then show ?case using assms Suc
    by (auto simp: nextDelay_def scaleDuration_two Let_def min_def)
qed


lemma BuildAndSubmit_prepared:
  "env_AccountDetail env = None \<Longrightarrow> env_NewTransaction env = None \<Longrightarrow> env_Sign env = None \<Longrightarrow>
   BuildAndSubmit cfg env = submitWithRetry cfg env"
  by (simp add: BuildAndSubmit_def)

lemma last_tracePrefix: "last (tracePrefix cfg (Suc k)) = Submit k"
  by simp

lemma isNonRetryableError_code:
  assumes "map_of (Extras p) ''result_codes'' = Some (JObject rc)"
    and "map_of rc ''transaction'' = Some (JString code)"
    and "code \<in> {''tx_bad_auth'', ''tx_bad_seq'', ''tx_insufficient_balance'',
                  ''tx_no_source_account''}"
  shows "isNonRetryableError p"
  using assms by (auto simp: isNonRetryableError_def nonRetryableCodes_def)

lemma submitLoop_submissions_bound:
  "submissions (snd (submitLoop cfg env attempt d le tr)) \<le>
   submissions tr + nat (MaxRetries cfg + 1 - attempt)"
proof (induction cfg env attempt d le tr rule: submitLoop.induct)
  case (1 cfg env attempt delay lastErr tr)
  show ?case
  proof (cases "attempt \<le> MaxRetries cfg")
    case False
    then show ?thesis by (simp add: submitLoop_exhausted)
  next
    case le: True
    show ?thesis
    proof (cases "if attempt > 0 then env_RetryWait env (nat attempt) else None")
      case (Some e)
      with le show ?thesis
        by (simp add: submitLoop.simps [of cfg env attempt delay lastErr tr])
    next
      case None
      let ?d = "if attempt > 0 then nextDelay cfg delay else delay"
      let ?tr = "(if attempt > 0 then tr @ [Sleep delay] else tr) @ [Submit (nat attempt)]"
      have tr': "submissions ?tr = submissions tr + 1"
        by (simp add: submissions_def)
      show ?thesis
      proof (cases "env_SubmitTransaction env (nat attempt)")
        case (Inr resp)
        with le None tr' show ?thesis
          by (simp add: submitLoop.simps [of cfg env attempt delay lastErr tr] Let_def)
      next
        case (Inl err)
        show ?thesis
        proof (cases "retried err")
          case True
          have ih: "submissions (snd (submitLoop cfg env (attempt + 1) ?d (Some err) ?tr)) \<le>
                submissions ?tr + nat (MaxRetries cfg + 1 - (attempt + 1))"
          proof (cases err)
            case (HorizonError herr)
            with True have "\<not> isNonRetryableError herr" by (simp add: retried_def)
            from "1.IH"(1) [OF le None refl refl Inl HorizonError this] show ?thesis
              using HorizonError by simp
          next
            case (OtherError x)
            from "1.IH"(2) [OF le None refl refl Inl OtherError] show ?thesis
              using OtherError by simp
          qed
          have "submitLoop cfg env attempt delay lastErr tr =
                submitLoop cfg env (attempt + 1) ?d (Some err) ?tr"
            using le None Inl True
            by (intro submitLoop_unfold_retry) (auto split: if_splits)
          with ih tr' le show ?thesis by simp
        next
          case False
          then obtain p where "err = HorizonError p" "isNonRetryableError p"
            by (cases err) (auto simp: retried_def)
          with le None Inl tr' show ?thesis
            by (simp add: submitLoop.simps [of cfg env attempt delay lastErr tr] Let_def)
        qed
      qed
    qed
  qed
qed

text \<open>
  Claim C2: in a call of \<open>BuildAndSubmit\<close> that gets as far as submitting, when
  attempt k (after k failed attempts that were retried, with no cancellation during the
  waits) fails with a Horizon error whose \<open>result_codes.transaction\<close> is one of
  \<open>tx_bad_auth\<close>, \<open>tx_bad_seq\<close>, \<open>tx_insufficient_balance\<close>, \<open>tx_no_source_account\<close>,
  the call returns that error, wrapped as non-retryable, and attempt k is the last
  submission: k + 1 submissions in all, exactly one when the first attempt fails so.
\<close>

theorem fatal_submission_error_not_retried:
  assumes "env_AccountDetail env = None" and "env_NewTransaction env = None"
    and "env_Sign env = None"
    and "int k \<le> MaxRetries cfg"
    and "\<forall>j<k. failsRetried env j"
    and "\<forall>j\<le>k. 0 < j \<longrightarrow> env_RetryWait env j = None"
    and "env_SubmitTransaction env k = Inl (HorizonError p)"
    and "map_of (Extras p) ''result_codes'' = Some (JObject rc)"
    and "map_of rc ''transaction'' = Some (JString code)"
    and "code \<in> {''tx_bad_auth'', ''tx_bad_seq'', ''tx_insufficient_balance'',
                  ''tx_no_source_account''}"
  shows "fst (BuildAndSubmit cfg env) = Inl (NonRetryableError (HorizonError p)) \<and>
         submissions (snd (BuildAndSubmit cfg env)) = k + 1 \<and>
         last (snd (BuildAndSubmit cfg env)) = Submit k \<and>
         (k = 0 \<longrightarrow> snd (BuildAndSubmit cfg env) = [Submit 0])"
proof -
  have fatal: "isNonRetryableError p"
    using assms(8-10) by (rule isNonRetryableError_code)
  have "BuildAndSubmit cfg env = submitWithRetry cfg env"
    using assms(1-3) by (rule BuildAndSubmit_prepared)
  also have "\<dots> = submitLoop cfg env (int k) (delayAt cfg k) (lastErrAt env k) (tracePrefix cfg k)"
    using assms(4-6) by (intro submitLoop_reaches) auto
  also have "\<dots> = (Inl (NonRetryableError (HorizonError p)), tracePrefix cfg (Suc k))"
    using assms(4,6,7) fatal by (intro submitLoop_fatal_step) auto
  finally have run: "BuildAndSubmit cfg env =
      (Inl (NonRetryableError (HorizonError p)), tracePrefix cfg (Suc k))" .
  have "submissions (tracePrefix cfg (Suc k)) = k + 1"
    using submissions_tracePrefix [of cfg "Suc k"] by simp
  moreover have "k = 0 \<longrightarrow> tracePrefix cfg (Suc k) = [Submit 0]"
    by simp
  ultimately show ?thesis
    unfolding run by (simp del: tracePrefix.simps add: last_tracePrefix)
qed

theorem fatal_submission_error_not_retried_witness:
  "fst (BuildAndSubmit DefaultRetryConfig failingThenBadSeq) =
     Inl (NonRetryableError (HorizonError badSeqProblem)) \<and>
   submissions (snd (BuildAndSubmit DefaultRetryConfig failingThenBadSeq)) = 2 \<and>
   last (snd (BuildAndSubmit DefaultRetryConfig failingThenBadSeq)) = Submit 1"
proof -
  have "fst (BuildAndSubmit DefaultRetryConfig failingThenBadSeq) =
          Inl (NonRetryableError (HorizonError badSeqProblem)) \<and>
        submissions (snd (BuildAndSubmit DefaultRetryConfig failingThenBadSeq)) = 1 + 1 \<and>
        last (snd (BuildAndSubmit DefaultRetryConfig failingThenBadSeq)) = Submit 1 \<and>
        ((1::nat) = 0 \<longrightarrow> snd (BuildAndSubmit DefaultRetryConfig failingThenBadSeq) = [Submit 0])"
    by (rule fatal_submission_error_not_retried
          [where k = 1 and rc = "[(''transaction'', JString ''tx_bad_seq'')]"
             and code = "''tx_bad_seq''"])
       (simp_all add: failingThenBadSeq_def DefaultRetryConfig_def badSeqProblem_def
          failsRetried_def retried_def)
  then show ?thesis by simp
qed


lemma submitWithRetry_all_fail:
  assumes "0 \<le> MaxRetries cfg"
    and "\<forall>j\<le>nat (MaxRetries cfg). failsRetried env j"
    and "\<forall>j\<le>nat (MaxRetries cfg). 0 < j \<longrightarrow> env_RetryWait env j = None"
  shows "submitWithRetry cfg env =
         (Inl (SubmissionFailedAfter (MaxRetries cfg + 1)
                 (lastErrAt env (Suc (nat (MaxRetries cfg))))),
          tracePrefix cfg (Suc (nat (MaxRetries cfg))))"
proof -
  let ?n = "Suc (nat (MaxRetries cfg))"
  have "submitWithRetry cfg env =
        submitLoop cfg env (int ?n) (delayAt cfg ?n) (lastErrAt env ?n) (tracePrefix cfg ?n)"
    using assms by (intro submitLoop_reaches) auto
  moreover have "submitLoop cfg env (int ?n) d le tr =
      (Inl (SubmissionFailedAfter (MaxRetries cfg + 1) le), tr)" for d le tr
    using assms(1) by (intro submitLoop_exhausted) simp
  ultimately show ?thesis
    by simp
qed

lemma BuildAndSubmit_submissions_bound:
  "submissions (snd (BuildAndSubmit cfg env)) \<le> nat (MaxRetries cfg + 1)"
proof -
  have "submissions (snd (submitWithRetry cfg env)) \<le> nat (MaxRetries cfg + 1)"
    using submitLoop_submissions_bound [of cfg env 0 "InitialDelay cfg" None "[]"]
    by (simp add: submitWithRetry_def submissions_def)
  then show ?thesis
    by (auto simp: BuildAndSubmit_def submissions_def split: option.splits)
qed

text \<open>
  Claim C3, amended: in a call of \<open>BuildAndSubmit\<close> that gets as far as submitting, with
  \<open>MaxRetries \<ge> 0\<close>, the factor 2, and \<open>0 \<le> InitialDelay \<le> MaxDelay \<le> 2 ^ 53\<close>
  nanoseconds (the range in which the \<open>float64\<close> product is exact), when every attempt
  fails with an error outside the fatal set and no cancellation arrives during the waits:
  \<open>MaxRetries + 1\<close> submissions are made, the delay slept before retry k is
  \<open>min (InitialDelay * 2 ^ (k - 1)) MaxDelay\<close>, and the error returned carries the
  count \<open>MaxRetries + 1\<close> and the error of the last submission. Whatever the network
  does, no call makes more than \<open>MaxRetries + 1\<close> submissions. With the default
  configuration the delays are 1 s, 2 s and 4 s.
\<close>

theorem exhausted_retries_backoff:
  assumes "env_AccountDetail env = None" and "env_NewTransaction env = None"
    and "env_Sign env = None"
    and "0 \<le> MaxRetries cfg"
    and "BackoffMultiplier cfg = 2"
    and "0 \<le> InitialDelay cfg" and "InitialDelay cfg \<le> MaxDelay cfg"
    and "MaxDelay cfg \<le> 2 ^ 53"
    and "\<forall>j\<le>nat (MaxRetries cfg). failsRetried env j"
    and "\<forall>j\<le>nat (MaxRetries cfg). 0 < j \<longrightarrow> env_RetryWait env j = None"
  shows "(\<exists>err. env_SubmitTransaction env (nat (MaxRetries cfg)) = Inl err \<and>
            fst (BuildAndSubmit cfg env) =
              Inl (SubmissionFailedAfter (MaxRetries cfg + 1) (Some err))) \<and>
         submissions (snd (BuildAndSubmit cfg env)) = nat (MaxRetries cfg) + 1 \<and>
         delays (snd (BuildAndSubmit cfg env)) =
           map (\<lambda>k. min (InitialDelay cfg * 2 ^ (k - 1)) (MaxDelay cfg))
             [1..<nat (MaxRetries cfg) + 1] \<and>
         (\<forall>env'. submissions (snd (BuildAndSubmit cfg env')) \<le> nat (MaxRetries cfg) + 1)"
proof -
  let ?n = "nat (MaxRetries cfg)"
  have run: "BuildAndSubmit cfg env =
      (Inl (SubmissionFailedAfter (MaxRetries cfg + 1) (lastErrAt env (Suc ?n))),
       tracePrefix cfg (Suc ?n))"
    using BuildAndSubmit_prepared [OF assms(1-3)] submitWithRetry_all_fail [OF assms(4,9,10)]
    by simp
  from assms(9) have "failsRetried env ?n" by simp
  then obtain err where err: "env_SubmitTransaction env ?n = Inl err"
    by (auto simp: failsRetried_def split: sum.splits)
  then have last: "lastErrAt env (Suc ?n) = Some err" by simp
  have closed: "delayAt cfg k = min (InitialDelay cfg * 2 ^ (k - 1)) (MaxDelay cfg)"
    if "k \<in> set [1..<Suc ?n]" for k
  proof -
    from that have "0 < k" by (simp del: upt_Suc)
    then obtain m where "k = Suc m" by (cases k) auto
    then show ?thesis
      using delayAt_closed [OF assms(5,7,6), of m] by simp
  qed
  have d: "delays (tracePrefix cfg (Suc ?n)) =
      map (\<lambda>k. min (InitialDelay cfg * 2 ^ (k - 1)) (MaxDelay cfg)) [1..<?n + 1]"
    unfolding delays_tracePrefix using closed by (simp del: upt_Suc delayAt.simps)
  have b: "\<forall>env'. submissions (snd (BuildAndSubmit cfg env')) \<le> ?n + 1"
    using BuildAndSubmit_submissions_bound [of cfg] assms(4) by (simp add: nat_add_distrib)
  have s: "submissions (tracePrefix cfg (Suc ?n)) = ?n + 1"
    using submissions_tracePrefix [of cfg "Suc ?n"] by simp
  show ?thesis
    unfolding run fst_conv snd_conv last using err d b s by blast
qed

theorem exhausted_retries_backoff_witness:
  "fst (BuildAndSubmit DefaultRetryConfig (alwaysFailing (OtherError ''timeout''))) =
     Inl (SubmissionFailedAfter 4 (Some (OtherError ''timeout''))) \<and>
   submissions (snd (BuildAndSubmit DefaultRetryConfig (alwaysFailing (OtherError ''timeout'')))) = 4 \<and>
   delays (snd (BuildAndSubmit DefaultRetryConfig (alwaysFailing (OtherError ''timeout'')))) =
     [1 * second, 2 * second, 4 * second]"
proof -
  let ?env = "alwaysFailing (OtherError ''timeout'')"
  have n: "nat (MaxRetries DefaultRetryConfig) = 3"
    by (simp add: DefaultRetryConfig_def)
  have u: "[1..<3 + 1] = [1, 2, 3::nat]"
    by (simp add: upt_rec)
  have "(\<exists>err. env_SubmitTransaction ?env (nat (MaxRetries DefaultRetryConfig)) = Inl err \<and>
            fst (BuildAndSubmit DefaultRetryConfig ?env) =
              Inl (SubmissionFailedAfter (MaxRetries DefaultRetryConfig + 1) (Some err))) \<and>
         submissions (snd (BuildAndSubmit DefaultRetryConfig ?env)) =
           nat (MaxRetries DefaultRetryConfig) + 1 \<and>
         delays (snd (BuildAndSubmit DefaultRetryConfig ?env)) =
           map (\<lambda>k. min (InitialDelay DefaultRetryConfig * 2 ^ (k - 1))
                        (MaxDelay DefaultRetryConfig))
             [1..<nat (MaxRetries DefaultRetryConfig) + 1] \<and>
         (\<forall>env'. submissions (snd (BuildAndSubmit DefaultRetryConfig env')) \<le>
                   nat (MaxRetries DefaultRetryConfig) + 1)"
    by (rule exhausted_retries_backoff)
       (simp_all add: alwaysFailing_def DefaultRetryConfig_def failsRetried_def retried_def
          second_def)
  then show ?thesis
    unfolding n u by (simp add: alwaysFailing_def DefaultRetryConfig_def second_def)
qed

text \<open>
  Claim C3, as stated, gives \<open>min (InitialDelay * 2 ^ (k - 1)) MaxDelay\<close> for the delay
  slept before retry k. The loop sleeps \<open>InitialDelay\<close> itself before the first retry
  and applies the cap only to the products: with an initial delay of 60 s and a cap of
  30 s the first retry waits 60 s, not 30 s.
\<close>

theorem backoff_first_delay_counterexample:
  "delays (snd (BuildAndSubmit slowStartConfig (alwaysFailing (OtherError ''timeout'')))) =
     [60 * second] \<and>
   map (\<lambda>k. min (InitialDelay slowStartConfig * 2 ^ (k - 1)) (MaxDelay slowStartConfig))
     [1..<nat (MaxRetries slowStartConfig) + 1] = [30 * second] \<and>
   [60 * second] \<noteq> [30 * second]"
proof -
  let ?env = "alwaysFailing (OtherError ''timeout'')"
  have "BuildAndSubmit slowStartConfig ?env = submitWithRetry slowStartConfig ?env"
    by (rule BuildAndSubmit_prepared) (simp_all add: alwaysFailing_def)
  also have "\<dots> = (Inl (SubmissionFailedAfter (MaxRetries slowStartConfig + 1)
                 (lastErrAt ?env (Suc (nat (MaxRetries slowStartConfig))))),
          tracePrefix slowStartConfig (Suc (nat (MaxRetries slowStartConfig))))"
    by (rule submitWithRetry_all_fail)
       (simp_all add: alwaysFailing_def slowStartConfig_def failsRetried_def retried_def)
  finally have "delays (snd (BuildAndSubmit slowStartConfig ?env)) =
      map (delayAt slowStartConfig) [1..<Suc (nat (MaxRetries slowStartConfig))]"
    by (simp only: snd_conv delays_tracePrefix)
  moreover have "nat (MaxRetries slowStartConfig) = 1"
    by (simp add: slowStartConfig_def)
  ultimately show ?thesis
    by (simp add: slowStartConfig_def second_def)
qed

section \<open>Confirmation polling: outcomes and status\<close>



lemma waitLoop_success_status:
  "waitLoop h deadline sel = Some (Inr r) \<Longrightarrow> Status r = ''success'' \<and> Hash r = h"
proof (induction sel)
  case Nil
  then show ?case by simp
next
  case (Cons x sel)
  then show ?case
    by (cases x) (auto split: if_splits option.splits)
qed

lemma waitLoop_withSuccessful:
  "waitLoop h deadline (map (withSuccessful b) sel) = waitLoop h deadline sel"
proof (induction sel)
  case Nil
  then show ?case by simp
next
  case (Cons x sel)
  then show ?case
    by (cases x) (auto split: option.splits)
qed

lemma pollLoop_status:
  "pollLoop h deadline sel = Some (Inr status) \<Longrightarrow>
   map_of status ''status'' = Some (JString ''SUCCESS'') \<or>
   map_of status ''status'' = Some (JString ''FAILED'')"
proof (induction sel)
  case Nil
  then show ?case by simp
next
  case (Cons x sel)
  then show ?case
    by (cases x) (auto split: if_splits option.splits jval.splits)
qed

















text \<open>
  Claim C10: a result that \<open>WaitForConfirmation\<close> returns without error has the status
  \<open>success\<close>, whatever the \<open>Successful\<close> flag of the transaction details says, also
  for a transaction that failed on the ledger; \<open>PollTransactionStatus\<close> returns the
  status document, whose \<open>status\<close> is \<open>SUCCESS\<close> or \<open>FAILED\<close>, and returns it
  for each of the two.
\<close>

theorem confirmation_status_always_success:
  "(WaitForConfirmation start sel h timeout = Some (Inr r) \<longrightarrow> Status r = ''success'') \<and>
   WaitForConfirmation start (map (withSuccessful b) sel) h timeout =
     WaitForConfirmation start sel h timeout \<and>
   (now \<le> start + timeout \<longrightarrow>
      WaitForConfirmation start [Tick now (Some \<lparr>TxLedger = l, TxSuccessful = False\<rparr>)] h timeout =
        Some (Inr \<lparr>Hash = h, Ledger = l, Status = ''success'', Submitted = now,
                   Confirmed = Some now\<rparr>)) \<and>
   (PollTransactionStatus start psel h timeout = Some (Inr status) \<longrightarrow>
      map_of status ''status'' = Some (JString ''SUCCESS'') \<or>
      map_of status ''status'' = Some (JString ''FAILED'')) \<and>
   (now \<le> start + timeout \<and>
    (map_of status' ''status'' = Some (JString ''SUCCESS'') \<or>
     map_of status' ''status'' = Some (JString ''FAILED'')) \<longrightarrow>
      PollTransactionStatus start [Tick now (Some status')] h timeout = Some (Inr status'))"
  using waitLoop_success_status [of h "start + timeout" sel r]
    waitLoop_withSuccessful [of h "start + timeout" b sel]
    pollLoop_status [of h "start + timeout" psel status]
  by (auto simp: WaitForConfirmation_def PollTransactionStatus_def)

theorem confirmation_status_always_success_witness:
  "WaitForConfirmation 0 [Tick (2 * second) (Some \<lparr>TxLedger = 9, TxSuccessful = False\<rparr>)]
     ''abc'' (60 * second) =
     Some (Inr \<lparr>Hash = ''abc'', Ledger = 9, Status = ''success'', Submitted = 2 * second,
                Confirmed = Some (2 * second)\<rparr>) \<and>
   PollTransactionStatus 0 [Tick (2 * second) (Some [(''status'', JString ''FAILED'')])]
     ''abc'' (60 * second) = Some (Inr [(''status'', JString ''FAILED'')])"
proof -
  have t: "2 * second \<le> 0 + 60 * second" by (simp add: second_def)
  have m: "map_of [(''status'', JString ''FAILED'')] ''status'' = Some (JString ''FAILED'')"
    by simp
  from confirmation_status_always_success
    [of 0 "[]" "''abc''" "60 * second" pendingResult False "2 * second" 9 "[]"
        "[]" "[(''status'', JString ''FAILED'')]"] t m
  show ?thesis by blast
qed

section \<open>Contract identifiers and the program escrow client\<close>

lemma hexVal_zero: "hexVal CHR ''0'' = Some 0"
  by (simp add: hexVal_def)

lemma hexVal_bang: "hexVal CHR ''!'' = None"
  by (simp add: hexVal_def)

lemma sscanf_00: "sscanfHexByte CHR ''0'' CHR ''0'' = Some 0"
  by (simp add: sscanfHexByte_def hexVal_zero)

lemma sscanf_0bang: "sscanfHexByte CHR ''0'' CHR ''!'' = Some 0"
  by (simp add: sscanfHexByte_def hexVal_zero hexVal_bang)

lemma parse_mistyped: "parseHexPairs mistypedContractID = Some (replicate 32 0)"
  unfolding mistypedContractID_def
  by (simp add: sscanf_00 sscanf_0bang eval_nat_numeral)

text \<open>
  Claim C5 says that \<open>EncodeContractAddress\<close> succeeds exactly on a string of 64
  hexadecimal characters or a base64 encoding of 32 bytes. The scan of the hexadecimal
  branch accepts a chunk with a single digit: 63 zeros followed by an exclamation mark, which is
  neither 64 hexadecimal characters nor made of base64 characters, is accepted (whatever
  the base64 decoder does) and yields the all-zero address.
\<close>

theorem mistyped_contract_id_accepted:
  "EncodeContractAddress dec mistypedContractID = Inr (ScAddressContract (replicate 32 0)) \<and>
   \<not> isHex64 mistypedContractID \<and> \<not> list_all base64Char mistypedContractID"
proof -
  have len: "length mistypedContractID = 64"
    by (simp add: mistypedContractID_def)
  have "EncodeContractAddress dec mistypedContractID = Inr (ScAddressContract (replicate 32 0))"
    by (simp add: EncodeContractAddress_def len parse_mistyped)
  moreover have "\<not> isHex64 mistypedContractID"
    by (simp add: isHex64_def mistypedContractID_def hexVal_bang)
  moreover have "\<not> base64Char CHR ''!''"
    by (simp add: base64Char_def)
  then have "\<not> list_all base64Char mistypedContractID"
    by (simp add: mistypedContractID_def)
  ultimately show ?thesis by blast
qed

lemma submitLoop_pending:
  "fst (submitLoop cfg env attempt d le tr) = Inr r \<Longrightarrow>
   Status r = ''pending'' \<and> Confirmed r = None"
proof (induction cfg env attempt d le tr rule: submitLoop.induct)
  case (1 cfg env attempt delay lastErr tr)
  from "1.prems" have le: "attempt \<le> MaxRetries cfg"
    by (cases "attempt \<le> MaxRetries cfg") (simp_all add: submitLoop.simps [of cfg env attempt])
  from "1.prems" le have wait: "(if attempt > 0 then env_RetryWait env (nat attempt) else None) = None"
    by (cases "if attempt > 0 then env_RetryWait env (nat attempt) else None")
       (simp_all add: submitLoop.simps [of cfg env attempt])
  let ?d = "if attempt > 0 then nextDelay cfg delay else delay"
  let ?tr = "(if attempt > 0 then tr @ [Sleep delay] else tr) @ [Submit (nat attempt)]"
  show ?case
  proof (cases "env_SubmitTransaction env (nat attempt)")
    case (Inr resp)
    with "1.prems" le wait show ?thesis
      by (auto simp: submitLoop.simps [of cfg env attempt] Let_def)
  next
    case (Inl err)
    show ?thesis
    proof (cases err)
      case (HorizonError herr)
      show ?thesis
      proof (cases "isNonRetryableError herr")
        case True
        with "1.prems" le wait Inl HorizonError show ?thesis
          by (simp add: submitLoop.simps [of cfg env attempt] Let_def)
      next
        case False
        with "1.prems" le wait Inl HorizonError
        have "fst (submitLoop cfg env (attempt + 1) ?d (Some err) ?tr) = Inr r"
          by (simp add: submitLoop.simps [of cfg env attempt] Let_def)
        with "1.IH"(1) [OF le wait refl refl Inl HorizonError False] show ?thesis
          by simp
      qed
    next
      case (OtherError x)
      with "1.prems" le wait Inl
      have "fst (submitLoop cfg env (attempt + 1) ?d (Some err) ?tr) = Inr r"
        by (simp add: submitLoop.simps [of cfg env attempt] Let_def)
      with "1.IH"(2) [OF le wait refl refl Inl OtherError] show ?thesis
        by simp
    qed
  qed
qed

lemma BuildAndSubmit_pending:
  "fst (BuildAndSubmit cfg env) = Inr r \<Longrightarrow> Status r = ''pending'' \<and> Confirmed r = None"
  using submitLoop_pending [of cfg env 0 "InitialDelay cfg" None "[]" r]
  by (auto simp: BuildAndSubmit_def submitWithRetry_def split: option.splits)

lemma submitAndConfirm_unconfirmed:
  assumes "fst (BuildAndSubmit cfg env) = Inr result"
    and "WaitForConfirmation start selects (Hash result) (60 * second) = Some (Inl err)"
  shows "submitAndConfirm cfg env start selects = Some (Inr result)"
  using assms by (simp add: submitAndConfirm_def)

lemma BuildAndSubmit_accepting:
  "BuildAndSubmit DefaultRetryConfig acceptingEnv = (Inr pendingResult, [Submit 0])"
  by (simp add: BuildAndSubmit_def submitWithRetry_def acceptingEnv_def DefaultRetryConfig_def
      pendingResult_def submitLoop.simps [of _ _ 0])

text \<open>
  Claim C9: in \<open>LockProgramFunds\<close>, \<open>SinglePayout\<close> and \<open>BatchPayout\<close>, when the
  operation was built, the submission succeeded with a result and the wait for its
  confirmation then failed (with any error), the operation returns that result, whose
  status is \<open>pending\<close>, and no error.
\<close>

theorem confirmation_failure_returns_pending:
  assumes "fst (BuildAndSubmit cfg env) = Inr result"
    and "WaitForConfirmation start selects (Hash result) (60 * second) = Some (Inl err)"
  shows "(lockProgramFundsOp enc contractAddress amount = Inr op1 \<longrightarrow>
            LockProgramFunds enc cfg env start selects contractAddress amount =
              Some (Inr result)) \<and>
         (singlePayoutOp enc contractAddress recipientAddress amount = Inr op2 \<longrightarrow>
            SinglePayout enc cfg env start selects contractAddress recipientAddress amount =
              Some (Inr result)) \<and>
         (batchPayoutOp enc contractAddress payouts = Inr op3 \<longrightarrow>
            BatchPayout enc cfg env start selects contractAddress payouts =
              Some (Inr result)) \<and>
         Status result = ''pending''"
  using submitAndConfirm_unconfirmed [OF assms] BuildAndSubmit_pending [OF assms(1)]
  by (simp add: LockProgramFunds_def SinglePayout_def BatchPayout_def)

theorem confirmation_failure_returns_pending_witness:
  "LockProgramFunds plainEncoders DefaultRetryConfig acceptingEnv 0 [CtxDone Canceled]
     zeroContractID 5 = Some (Inr pendingResult) \<and>
   SinglePayout plainEncoders DefaultRetryConfig acceptingEnv 0 [CtxDone Canceled]
     zeroContractID ''GABC'' 5 = Some (Inr pendingResult) \<and>
   BatchPayout plainEncoders DefaultRetryConfig acceptingEnv 0 [CtxDone Canceled]
     zeroContractID [\<lparr>Recipient = ''GABC'', Amount = 5\<rparr>] = Some (Inr pendingResult) \<and>
   Status pendingResult = ''pending''"
proof -
  have sub: "fst (BuildAndSubmit DefaultRetryConfig acceptingEnv) = Inr pendingResult"
    by (simp add: BuildAndSubmit_accepting)
  have wait: "WaitForConfirmation 0 [CtxDone Canceled] (Hash pendingResult) (60 * second) =
      Some (Inl (ContextError Canceled))"
    by (simp add: WaitForConfirmation_def)
  have addr: "EncodeContractAddress (\<lambda>s. None) zeroContractID =
      Inr (ScAddressContract (replicate 32 0))"
    by (simp add: EncodeContractAddress_def zeroContractID_def sscanf_00 eval_nat_numeral)
  have l: "lockProgramFundsOp plainEncoders zeroContractID 5 = Inr ''lock_program_funds''"
    by (simp add: lockProgramFundsOp_def plainEncoders_def addr)
  have s: "singlePayoutOp plainEncoders zeroContractID ''GABC'' 5 = Inr ''single_payout''"
    by (simp add: singlePayoutOp_def plainEncoders_def addr)
  have b: "batchPayoutOp plainEncoders zeroContractID [\<lparr>Recipient = ''GABC'', Amount = 5\<rparr>] =
      Inr ''batch_payout''"
    by (simp add: batchPayoutOp_def plainEncoders_def addr)
  from confirmation_failure_returns_pending [OF sub wait, of plainEncoders zeroContractID 5
      "''lock_program_funds''" "''GABC''" "''single_payout''"
      "[\<lparr>Recipient = ''GABC'', Amount = 5\<rparr>]" "''batch_payout''"] l s b
  show ?thesis by simp
qed

section \<open>Wallet signature verification\<close>

lemma wallet_types_distinct:
  "WalletTypeEVM \<noteq> WalletTypeStellarEd25519"
  "WalletTypeEVM \<noteq> WalletTypeStellarSecp256k1"
  "WalletTypeStellarEd25519 \<noteq> WalletTypeStellarSecp256k1"
  by (simp_all add: WalletTypeEVM_def WalletTypeStellarEd25519_def
      WalletTypeStellarSecp256k1_def)

lemma verifyEVM_iff:
  "verifyEVM lib address message signatureHex = None \<longleftrightarrow>
     (\<exists>sig pub. hexutil_Decode signatureHex = Some sig \<and> length sig = 65 \<and>
        crypto_SigToPub lib (accounts_TextHash lib message) (normalizeV sig) = Some pub \<and>
        strings_ToLower lib address = strings_ToLower lib (crypto_PubkeyToAddressHex lib pub))"
  by (auto simp: verifyEVM_def split: option.splits)

lemma verifyStellarEd25519_iff:
  "verifyStellarEd25519 lib message signatureHex publicKeyHex = None \<longleftrightarrow>
     (\<exists>pubKeyBytes sigBytes. decodeHex lib publicKeyHex = Some pubKeyBytes \<and>
        length pubKeyBytes = 32 \<and> decodeHex lib signatureHex = Some sigBytes \<and>
        length sigBytes = 64 \<and> ed25519_Verify lib pubKeyBytes message sigBytes)"
  by (auto simp: verifyStellarEd25519_def ed25519_PublicKeySize_def ed25519_SignatureSize_def
      split: option.splits)

lemma verifyStellarSecp256k1_iff:
  "verifyStellarSecp256k1 lib message signatureHex publicKeyHex = None \<longleftrightarrow>
     (\<exists>pubKeyBytes pubKey sigBytes sig. decodeHex lib publicKeyHex = Some pubKeyBytes \<and>
        secp256k1_ParsePubKey lib pubKeyBytes = Some pubKey \<and>
        decodeHex lib signatureHex = Some sigBytes \<and>
        parseSecp256k1Signature lib sigBytes = Some sig \<and>
        ecdsa_Verify lib sig (sha256_Sum256 lib message) pubKey)"
  by (auto simp: verifyStellarSecp256k1_def split: option.splits)

lemma decodeHex_empty: "strings_TrimSpace lib s = [] \<Longrightarrow> decodeHex lib s = None"
  by (simp add: decodeHex_def)

lemma parse_compact:
  "length b = 64 \<Longrightarrow>
   parseSecp256k1Signature lib b =
     (if bigEndian (take 32 b) < secp256k1_N \<and> bigEndian (drop 32 b) < secp256k1_N
      then Some (ecdsa_NewSignature lib (bigEndian (take 32 b)) (bigEndian (drop 32 b)))
      else None)"
  by (auto simp: parseSecp256k1Signature_def SetByteSlice_def)

lemma parse_der:
  "length b \<noteq> 64 \<Longrightarrow> parseSecp256k1Signature lib b = ecdsa_ParseDERSignature lib b"
  by (simp add: parseSecp256k1Signature_def)

lemma normalizeV_27: "length sig = 65 \<Longrightarrow> sig ! 64 = 27 \<Longrightarrow> normalizeV sig ! 64 = 0"
  by (simp add: normalizeV_def)

lemma normalizeV_28: "length sig = 65 \<Longrightarrow> sig ! 64 = 28 \<Longrightarrow> normalizeV sig ! 64 = 1"
  by (simp add: normalizeV_def)

lemma normalizeV_low: "sig ! 64 < 27 \<Longrightarrow> normalizeV sig = sig"
  by (auto simp: normalizeV_def)

lemma normalizeV_rest: "length (normalizeV sig) = length sig \<and> take 64 (normalizeV sig) = take 64 sig"
  by (simp add: normalizeV_def)

text \<open>
  Claim C6: for the wallet type \<open>evm\<close>, \<open>VerifySignature\<close> returns no error exactly
  when the signature decodes to 65 bytes, recovery of the public key from the text hash of
  the message and the signature with its last byte normalised succeeds, and the lower-cased
  claimed address equals the lower-cased recovered address; a decoded signature of any
  other length is an error. The normalisation maps 27 to 0 and 28 to 1, leaves a value
  below 27 as it is, and touches no other byte.
\<close>

theorem evm_signature_accepted_iff:
  "(VerifySignature lib WalletTypeEVM address message signatureHex publicKeyHex = None \<longleftrightarrow>
     (\<exists>sig pub. hexutil_Decode signatureHex = Some sig \<and> length sig = 65 \<and>
        crypto_SigToPub lib (accounts_TextHash lib message) (normalizeV sig) = Some pub \<and>
        strings_ToLower lib address = strings_ToLower lib (crypto_PubkeyToAddressHex lib pub))) \<and>
   (hexutil_Decode signatureHex = Some sig' \<and> length sig' \<noteq> 65 \<longrightarrow>
      VerifySignature lib WalletTypeEVM address message signatureHex publicKeyHex =
        Some InvalidSignatureLength) \<and>
   (length s = 65 \<and> s ! 64 = 27 \<longrightarrow> normalizeV s ! 64 = 0) \<and>
   (length s = 65 \<and> s ! 64 = 28 \<longrightarrow> normalizeV s ! 64 = 1) \<and>
   (s ! 64 < 27 \<longrightarrow> normalizeV s = s) \<and>
   take 64 (normalizeV s) = take 64 s"
proof -
  have "VerifySignature lib WalletTypeEVM address message signatureHex publicKeyHex =
      verifyEVM lib address message signatureHex"
    by (simp add: VerifySignature_def)
  moreover have "hexutil_Decode signatureHex = Some sig' \<and> length sig' \<noteq> 65 \<longrightarrow>
      verifyEVM lib address message signatureHex = Some InvalidSignatureLength"
    by (simp add: verifyEVM_def)
  ultimately show ?thesis
    using verifyEVM_iff [of lib address message signatureHex]
      normalizeV_27 [of s] normalizeV_28 [of s] normalizeV_low [of s] normalizeV_rest [of s]
    by simp
qed

lemma toySignature_decodes:
  "hexutil_Decode toySignatureHex = Some (replicate 64 0 @ [28])"
  by (simp add: hexutil_Decode_def has0xPrefix_def toySignatureHex_def hexVal_def
      eval_nat_numeral)

theorem evm_signature_accepted_iff_witness:
  "VerifySignature toyCrypto WalletTypeEVM ''0xabcd'' ''login'' toySignatureHex [] = None \<and>
   hexutil_Decode toySignatureHex = Some (replicate 64 0 @ [28]) \<and>
   normalizeV (replicate 64 0 @ [28]) ! 64 = 1"
proof -
  let ?sig = "replicate 64 0 @ [28 :: byte]"
  have n: "normalizeV ?sig ! 64 = 1"
    by (simp add: normalizeV_def nth_append)
  have "crypto_SigToPub toyCrypto (accounts_TextHash toyCrypto ''login'') (normalizeV ?sig) =
      Some ''0xAbCd''"
    using n by (simp add: toyCrypto_def)
  moreover have "strings_ToLower toyCrypto ''0xabcd'' =
      strings_ToLower toyCrypto (crypto_PubkeyToAddressHex toyCrypto ''0xAbCd'')"
    by (simp add: toyCrypto_def hexLower_def)
  ultimately have "\<exists>sig pub. hexutil_Decode toySignatureHex = Some sig \<and> length sig = 65 \<and>
        crypto_SigToPub toyCrypto (accounts_TextHash toyCrypto ''login'') (normalizeV sig) = Some pub \<and>
        strings_ToLower toyCrypto ''0xabcd'' =
          strings_ToLower toyCrypto (crypto_PubkeyToAddressHex toyCrypto pub)"
    using toySignature_decodes by (intro exI [of _ ?sig] exI [of _ "''0xAbCd''"]) simp
  with evm_signature_accepted_iff [of toyCrypto "''0xabcd''" "''login''" toySignatureHex "[]"]
    toySignature_decodes n
  show ?thesis by blast
qed

text \<open>
  Claim C7: for the wallet type \<open>stellar_secp256k1\<close>, \<open>VerifySignature\<close> returns no
  error exactly when the public key decodes and parses, the signature decodes and parses,
  and the parsed signature verifies for the SHA-256 digest of the message under that key.
  An empty public key is an error. A signature of 64 bytes is read as two 32-byte
  big-endian scalars, each below the group order; one of any other length is read as DER.
\<close>

theorem secp256k1_signature_accepted_iff:
  "(VerifySignature lib WalletTypeStellarSecp256k1 address message signatureHex publicKeyHex =
      None \<longleftrightarrow>
     (\<exists>pubKeyBytes pubKey sigBytes sig. decodeHex lib publicKeyHex = Some pubKeyBytes \<and>
        secp256k1_ParsePubKey lib pubKeyBytes = Some pubKey \<and>
        decodeHex lib signatureHex = Some sigBytes \<and>
        parseSecp256k1Signature lib sigBytes = Some sig \<and>
        ecdsa_Verify lib sig (sha256_Sum256 lib message) pubKey)) \<and>
   (strings_TrimSpace lib publicKeyHex = [] \<longrightarrow>
      VerifySignature lib WalletTypeStellarSecp256k1 address message signatureHex publicKeyHex =
        Some InvalidPublicKey) \<and>
   (length b = 64 \<longrightarrow>
      parseSecp256k1Signature lib b =
        (if bigEndian (take 32 b) < secp256k1_N \<and> bigEndian (drop 32 b) < secp256k1_N
         then Some (ecdsa_NewSignature lib (bigEndian (take 32 b)) (bigEndian (drop 32 b)))
         else None)) \<and>
   (length b \<noteq> 64 \<longrightarrow> parseSecp256k1Signature lib b = ecdsa_ParseDERSignature lib b)"
proof -
  have v: "VerifySignature lib WalletTypeStellarSecp256k1 address message signatureHex
      publicKeyHex = verifyStellarSecp256k1 lib message signatureHex publicKeyHex"
    using wallet_types_distinct by (simp add: VerifySignature_def)
  have "strings_TrimSpace lib publicKeyHex = [] \<longrightarrow>
      verifyStellarSecp256k1 lib message signatureHex publicKeyHex = Some InvalidPublicKey"
    by (simp add: verifyStellarSecp256k1_def decodeHex_empty)
  then show ?thesis
    unfolding v
    using verifyStellarSecp256k1_iff [of lib message signatureHex publicKeyHex]
      parse_compact [of b lib] parse_der [of b lib]
    by blast
qed

lemma toyPublicKey_decodes:
  "decodeHex toyCrypto toyPublicKeyHex = Some (2 # replicate 32 0)"
  by (simp add: decodeHex_def toyCrypto_def TrimPrefix_def toyPublicKeyHex_def hexVal_def
      eval_nat_numeral)

lemma toyCompactSignature_decodes:
  "decodeHex toyCrypto toyCompactSignatureHex = Some (replicate 31 0 @ [1] @ replicate 31 0 @ [2])"
  by (simp add: decodeHex_def toyCrypto_def TrimPrefix_def toyCompactSignatureHex_def hexVal_def
      eval_nat_numeral)

lemma bigEndian_leading_zeros: "bigEndian (replicate n 0 @ bs) = bigEndian bs"
  by (induction n) (simp_all add: bigEndian_def)

lemma toyCompactSignature_parses:
  "parseSecp256k1Signature toyCrypto (replicate 31 0 @ [1] @ replicate 31 0 @ [2]) = Some (1, 2)"
proof -
  let ?b = "replicate 31 0 @ [1] @ replicate 31 0 @ [2 :: byte]"
  have len: "length ?b = 64" by simp
  have t: "take 32 ?b = replicate 31 0 @ [1]" and d: "drop 32 ?b = replicate 31 0 @ [2]"
    by simp_all
  have r: "bigEndian (take 32 ?b) = 1" and s: "bigEndian (drop 32 ?b) = 2"
    unfolding t d bigEndian_leading_zeros by (simp_all add: bigEndian_def)
  have n: "(1::nat) < secp256k1_N" "(2::nat) < secp256k1_N"
    by (simp_all add: secp256k1_N_def)
  show ?thesis
    unfolding parse_compact [OF len] r s using n by (simp add: toyCrypto_def)
qed

theorem secp256k1_signature_accepted_iff_witness:
  "VerifySignature toyCrypto WalletTypeStellarSecp256k1 ''GABC'' ''login''
     toyCompactSignatureHex toyPublicKeyHex = None \<and>
   VerifySignature toyCrypto WalletTypeStellarSecp256k1 ''GABC'' ''login''
     toyCompactSignatureHex [] = Some InvalidPublicKey"
proof -
  have "secp256k1_ParsePubKey toyCrypto (2 # replicate 32 0) = Some (2 # replicate 32 0)"
    by (simp add: toyCrypto_def)
  moreover have "ecdsa_Verify toyCrypto (1, 2) (sha256_Sum256 toyCrypto ''login'')
      (2 # replicate 32 0)"
    by (simp add: toyCrypto_def)
  ultimately have ex: "\<exists>pubKeyBytes pubKey sigBytes sig.
        decodeHex toyCrypto toyPublicKeyHex = Some pubKeyBytes \<and>
        secp256k1_ParsePubKey toyCrypto pubKeyBytes = Some pubKey \<and>
        decodeHex toyCrypto toyCompactSignatureHex = Some sigBytes \<and>
        parseSecp256k1Signature toyCrypto sigBytes = Some sig \<and>
        ecdsa_Verify toyCrypto sig (sha256_Sum256 toyCrypto ''login'') pubKey"
    using toyPublicKey_decodes toyCompactSignature_decodes toyCompactSignature_parses
    by blast
  have e: "strings_TrimSpace toyCrypto [] = []"
    by (simp add: toyCrypto_def)
  from secp256k1_signature_accepted_iff
    [of toyCrypto "''GABC''" "''login''" toyCompactSignatureHex toyPublicKeyHex "[]"] ex
  have "VerifySignature toyCrypto WalletTypeStellarSecp256k1 ''GABC'' ''login''
     toyCompactSignatureHex toyPublicKeyHex = None"
    by blast
  moreover from secp256k1_signature_accepted_iff
    [of toyCrypto "''GABC''" "''login''" toyCompactSignatureHex "[]" "[]"] e
  have "VerifySignature toyCrypto WalletTypeStellarSecp256k1 ''GABC'' ''login''
     toyCompactSignatureHex [] = Some InvalidPublicKey"
    by blast
  ultimately show ?thesis by blast
qed

text \<open>
  Claim C8, amended: for all three wallet schemes and all inputs, \<open>VerifySignature\<close>
  returns no error only when, for the wallet type given, every decoding, every length
  check and the verification itself succeeded; in every other case the result is an error
  (whose message depends on where the failure was found; it is not one uniform error);
  and a wallet type other than the three supported ones is always the error for an
  unsupported wallet type.
\<close>

theorem verification_fails_closed:
  "(t \<noteq> WalletTypeEVM \<and> t \<noteq> WalletTypeStellarEd25519 \<and> t \<noteq> WalletTypeStellarSecp256k1 \<longrightarrow>
      VerifySignature lib t address message signatureHex publicKeyHex =
        Some UnsupportedWalletType) \<and>
   (VerifySignature lib t address message signatureHex publicKeyHex = None \<longleftrightarrow>
      (t = WalletTypeEVM \<and>
       (\<exists>sig pub. hexutil_Decode signatureHex = Some sig \<and> length sig = 65 \<and>
          crypto_SigToPub lib (accounts_TextHash lib message) (normalizeV sig) = Some pub \<and>
          strings_ToLower lib address =
            strings_ToLower lib (crypto_PubkeyToAddressHex lib pub))) \<or>
      (t = WalletTypeStellarEd25519 \<and>
       (\<exists>pubKeyBytes sigBytes. decodeHex lib publicKeyHex = Some pubKeyBytes \<and>
          length pubKeyBytes = 32 \<and> decodeHex lib signatureHex = Some sigBytes \<and>
          length sigBytes = 64 \<and> ed25519_Verify lib pubKeyBytes message sigBytes)) \<or>
      (t = WalletTypeStellarSecp256k1 \<and>
       (\<exists>pubKeyBytes pubKey sigBytes sig. decodeHex lib publicKeyHex = Some pubKeyBytes \<and>
          secp256k1_ParsePubKey lib pubKeyBytes = Some pubKey \<and>
          decodeHex lib signatureHex = Some sigBytes \<and>
          parseSecp256k1Signature lib sigBytes = Some sig \<and>
          ecdsa_Verify lib sig (sha256_Sum256 lib message) pubKey)))"
proof -
  consider (evm) "t = WalletTypeEVM" | (ed) "t = WalletTypeStellarEd25519"
    | (secp) "t = WalletTypeStellarSecp256k1"
    | (other) "t \<noteq> WalletTypeEVM" "t \<noteq> WalletTypeStellarEd25519"
        "t \<noteq> WalletTypeStellarSecp256k1"
    by blast
  then show ?thesis
  proof cases
    case evm
    then have "VerifySignature lib t address message signatureHex publicKeyHex =
        verifyEVM lib address message signatureHex"
      by (simp add: VerifySignature_def)
    with evm wallet_types_distinct verifyEVM_iff [of lib address message signatureHex]
    show ?thesis by simp
  next
    case ed
    then have "VerifySignature lib t address message signatureHex publicKeyHex =
        verifyStellarEd25519 lib message signatureHex publicKeyHex"
      using wallet_types_distinct by (simp add: VerifySignature_def)
    with ed wallet_types_distinct
      verifyStellarEd25519_iff [of lib message signatureHex publicKeyHex]
    show ?thesis by simp
  next
    case secp
    then have "VerifySignature lib t address message signatureHex publicKeyHex =
        verifyStellarSecp256k1 lib message signatureHex publicKeyHex"
      using wallet_types_distinct by (simp add: VerifySignature_def)
    with secp wallet_types_distinct
      verifyStellarSecp256k1_iff [of lib message signatureHex publicKeyHex]
    show ?thesis by simp
  next
    case other
    then show ?thesis by (simp add: VerifySignature_def)
  qed
qed

theorem verification_fails_closed_witness:
  "VerifySignature toyCrypto ''bitcoin'' ''GABC'' ''login'' toyCompactSignatureHex
     toyPublicKeyHex = Some UnsupportedWalletType \<and>
   VerifySignature toyCrypto WalletTypeStellarEd25519 ''GABC'' ''login'' toyCompactSignatureHex
     toyPublicKeyHex \<noteq> None"
proof -
  have d: "''bitcoin'' \<noteq> WalletTypeEVM \<and> ''bitcoin'' \<noteq> WalletTypeStellarEd25519 \<and>
      ''bitcoin'' \<noteq> WalletTypeStellarSecp256k1"
    by (simp add: WalletTypeEVM_def WalletTypeStellarEd25519_def WalletTypeStellarSecp256k1_def)
  have no: "\<not> ed25519_Verify toyCrypto pk ''login'' sg" for pk sg
    by (simp add: toyCrypto_def)
  from verification_fails_closed
    [of "''bitcoin''" toyCrypto "''GABC''" "''login''" toyCompactSignatureHex toyPublicKeyHex] d
  have "VerifySignature toyCrypto ''bitcoin'' ''GABC'' ''login'' toyCompactSignatureHex
     toyPublicKeyHex = Some UnsupportedWalletType"
    by blast
  moreover from verification_fails_closed
    [of WalletTypeStellarEd25519 toyCrypto "''GABC''" "''login''" toyCompactSignatureHex
        toyPublicKeyHex] no wallet_types_distinct
  have "VerifySignature toyCrypto WalletTypeStellarEd25519 ''GABC'' ''login''
      toyCompactSignatureHex toyPublicKeyHex \<noteq> None"
    by simp
  ultimately show ?thesis by blast
qed

text \<open>
  Claim C8, as stated, has every parse error, length mismatch and verification failure
  end in one uniform invalid-signature outcome. The errors \<open>VerifySignature\<close> returns
  differ with the site of the failure: a signature that is no hexadecimal string, one of
  the wrong length, one that recovers another address and a public key that does not
  decode give four different errors.
\<close>

theorem verification_errors_not_uniform_counterexample:
  "VerifySignature toyCrypto WalletTypeEVM ''0xabcd'' ''login'' ''zz'' [] =
     Some InvalidSignatureHex \<and>
   VerifySignature toyCrypto WalletTypeEVM ''0xabcd'' ''login'' ''0x00'' [] =
     Some InvalidSignatureLength \<and>
   VerifySignature toyCrypto WalletTypeEVM ''0x1234'' ''login'' toySignatureHex [] =
     Some SignatureDoesNotMatchAddress \<and>
   VerifySignature toyCrypto WalletTypeStellarEd25519 ''GABC'' ''login'' toyCompactSignatureHex
     ''zz'' = Some InvalidPublicKey \<and>
   InvalidSignatureHex \<noteq> InvalidSignatureLength \<and>
   InvalidSignatureLength \<noteq> SignatureDoesNotMatchAddress \<and>
   InvalidSignatureHex \<noteq> SignatureDoesNotMatchAddress \<and>
   InvalidPublicKey \<noteq> InvalidSignatureHex \<and>
   InvalidPublicKey \<noteq> InvalidSignatureLength \<and>
   InvalidPublicKey \<noteq> SignatureDoesNotMatchAddress"
proof -
  have "verifyEVM toyCrypto ''0xabcd'' ''login'' ''zz'' = Some InvalidSignatureHex"
    by (simp add: verifyEVM_def hexutil_Decode_def has0xPrefix_def)
  moreover have "verifyEVM toyCrypto ''0xabcd'' ''login'' ''0x00'' = Some InvalidSignatureLength"
    by (simp add: verifyEVM_def hexutil_Decode_def has0xPrefix_def hexVal_def)
  moreover have "normalizeV (replicate 64 0 @ [28 :: byte]) ! 64 = 1"
    by (simp add: normalizeV_def nth_append)
  then have "verifyEVM toyCrypto ''0x1234'' ''login'' toySignatureHex =
      Some SignatureDoesNotMatchAddress"
    by (simp add: verifyEVM_def toySignature_decodes toyCrypto_def hexLower_def)
  moreover have "verifyStellarEd25519 toyCrypto ''login'' toyCompactSignatureHex ''zz'' =
      Some InvalidPublicKey"
    by (simp add: verifyStellarEd25519_def decodeHex_def TrimPrefix_def toyCrypto_def hexVal_def)
  ultimately show ?thesis
    using wallet_types_distinct by (simp add: VerifySignature_def)
qed

end
